theory Spec2Isabelle
  imports Complex_Main
begin

section \<open>The voxel world: block types and the terrain classifier\<close>

text \<open>
  The development follows \<^verbatim>\<open>src/components/minecraft/utils.ts\<close> and
  \<^verbatim>\<open>src/components/minecraft/MinecraftGame.tsx\<close>. JavaScript numbers are modelled by
  \<^typ>\<open>real\<close> where the code computes with fractions (positions, timers, random draws) and
  by \<^typ>\<open>int\<close> where the code only ever holds integers (block coordinates, column
  heights); NaN and the infinities of IEEE doubles are outside the model. The sums that the
  cow's timers accumulate frame after frame are rounded by the program, and the frame on
  which a timer reaches its limit depends on that rounding: there the addition is a
  parameter of the model (\<open>radd\<close> below). The other arithmetic is exact.
\<close>

subsection \<open>BLOCK_TYPES\<close>

datatype BlockType = GRASS | DIRT | STONE | WOOD | LEAVES

subsection \<open>getBlockType (utils.ts) and the classifier inlined in generateWorld\<close>

definition getBlockType :: "int \<Rightarrow> int \<Rightarrow> BlockType" where
  "getBlockType y terrainHeight =
     (if y = terrainHeight then GRASS
      else if y \<ge> terrainHeight - 3 then DIRT
      else STONE)"

text \<open>
  generateWorld does not call getBlockType: its loop over \<open>y = 0 .. height\<close> repeats the
  same three-way test inline. \<open>generateColumn\<close> is that inner loop for one column, giving the
  blocks it creates in order of increasing \<open>y\<close>.
\<close>

definition generateWorld_blockType :: "int \<Rightarrow> int \<Rightarrow> BlockType" where
  "generateWorld_blockType y height =
     (if y = height then GRASS
      else if y \<ge> height - 3 then DIRT
      else STONE)"

definition generateColumn :: "int \<Rightarrow> (int \<times> BlockType) list" where
  "generateColumn height = map (\<lambda>y. (y, generateWorld_blockType y height)) [0..height]"

section \<open>Vectors and the random source\<close>

subsection \<open>THREE.Vector3, by value\<close>

text \<open>
  The Cow class owns its vectors (every vector it stores is fresh or a clone), so its
  methods are modelled on vector values. \<open>normalize\<close> is three.js's
  \<^verbatim>\<open>divideScalar(this.length() || 1)\<close>, and \<open>divideScalar s\<close> is \<open>multiplyScalar (1 / s)\<close>.
\<close>

record vec3 =
  vx :: real
  vy :: real
  vz :: real

definition Vector3 :: "real \<Rightarrow> real \<Rightarrow> real \<Rightarrow> vec3" where
  "Vector3 a b c = \<lparr>vx = a, vy = b, vz = c\<rparr>"

definition v_add :: "vec3 \<Rightarrow> vec3 \<Rightarrow> vec3" where
  "v_add u v = \<lparr>vx = vx u + vx v, vy = vy u + vy v, vz = vz u + vz v\<rparr>"

definition v_sub :: "vec3 \<Rightarrow> vec3 \<Rightarrow> vec3" where
  "v_sub u v = \<lparr>vx = vx u - vx v, vy = vy u - vy v, vz = vz u - vz v\<rparr>"

definition multiplyScalar :: "vec3 \<Rightarrow> real \<Rightarrow> vec3" where
  "multiplyScalar v s = \<lparr>vx = vx v * s, vy = vy v * s, vz = vz v * s\<rparr>"

definition v_length :: "vec3 \<Rightarrow> real" where
  "v_length v = sqrt (vx v * vx v + vy v * vy v + vz v * vz v)"

definition divideScalar :: "vec3 \<Rightarrow> real \<Rightarrow> vec3" where
  "divideScalar v s = multiplyScalar v (1 / s)"

definition normalize :: "vec3 \<Rightarrow> vec3" where
  "normalize v = divideScalar v (if v_length v = 0 then 1 else v_length v)"

subsection \<open>Math.random\<close>

text \<open>
  The random source is the infinite sequence of the draws still to come; Math.random
  takes its head. \<open>rng_ok\<close> says that every draw lies in \<open>[0, 1)\<close>, as Math.random promises.
\<close>

type_synonym rng = "nat \<Rightarrow> real"

definition Math_random :: "rng \<Rightarrow> real \<times> rng" where
  "Math_random g = (g 0, \<lambda>n. g (Suc n))"

definition rng_ok :: "rng \<Rightarrow> bool" where
  "rng_ok g = (\<forall>n. 0 \<le> g n \<and> g n < 1)"

section \<open>The Cow class\<close>

text \<open>
  The fields of the class, with the mesh reduced to what the simulation reads back: the
  handle of the group (\<open>mesh\<close>), the handles of its thirteen child meshes (body, head, four
  legs, three spots, udder, tail, two ears) and the material of the body, \<open>body_happy\<close>
  being true for the yellow "happy" material that updateBodyColor installs. The mesh's
  own position, its rotation and the bob animation (which reads the wall clock) are
  rendering state and are left out. The id keeps the random draw it is printed from.
\<close>

record cow =
  cid :: real
  position :: vec3
  direction :: vec3
  speed :: real
  wanderTimer :: real
  maxWanderTime :: real
  isFed :: bool
  followTarget :: "vec3 option"
  fedTimer :: real
  maxFedTime :: real
  mesh :: nat
  mesh_children :: "nat list"
  body_happy :: bool

record worldBounds =
  min_bound :: real
  max_bound :: real

definition updateBodyColor :: "bool \<Rightarrow> cow \<Rightarrow> cow" where
  "updateBodyColor fed c = c\<lparr>body_happy := fed\<rparr>"

text \<open>The constructor; \<open>h\<close> is the fresh object handle its mesh group receives.\<close>

definition Cow_new :: "nat \<Rightarrow> real \<Rightarrow> real \<Rightarrow> real \<Rightarrow> rng \<Rightarrow> cow \<times> rng" where
  "Cow_new h x y z g =
     (let (r_id, g1) = Math_random g;
          (r_dx, g2) = Math_random g1;
          (r_dz, g3) = Math_random g2;
          (r_speed, g4) = Math_random g3;
          (r_wander, g5) = Math_random g4
      in (\<lparr>cid = r_id,
           position = Vector3 x y z,
           direction = normalize (Vector3 ((r_dx - 0.5) * 2) 0 ((r_dz - 0.5) * 2)),
           speed = 0.5 + r_speed * 0.5,
           wanderTimer = 0,
           maxWanderTime = 3 + r_wander * 4,
           isFed = False,
           followTarget = None,
           fedTimer = 0,
           maxFedTime = 10,
           mesh = h,
           mesh_children = [Suc h ..< h + 14],
           body_happy = False\<rparr>, g5))"

definition isNearWorldBounds :: "worldBounds \<Rightarrow> cow \<Rightarrow> bool" where
  "isNearWorldBounds wb c =
     (let buffer = 3 in
        vx (position c) \<le> min_bound wb + buffer \<or>
        vx (position c) \<ge> max_bound wb - buffer \<or>
        vz (position c) \<le> min_bound wb + buffer \<or>
        vz (position c) \<ge> max_bound wb - buffer)"

definition Cow_feed :: "vec3 \<Rightarrow> cow \<Rightarrow> cow" where
  "Cow_feed playerPosition c =
     updateBodyColor True (c\<lparr>isFed := True, followTarget := Some playerPosition, fedTimer := 0\<rparr>)"

subsection \<open>Cow.update, in the order of its four blocks\<close>

text \<open>
  \<^verbatim>\<open>this.wanderTimer += delta\<close> and \<^verbatim>\<open>this.fedTimer += delta\<close> store the sum as JavaScript
  computes it, the exact sum rounded to a double. \<open>radd\<close> is that addition; the model
  takes it as a parameter and so holds for the program's addition as for the exact one.
  \<open>number_radd\<close> states the two facts about it that the invariant of the cows needs, both
  true of the rounded sum: it keeps a sum of numbers that are not negative from being
  negative, and it is monotone in the number added to.
\<close>

definition number_radd :: "(real \<Rightarrow> real \<Rightarrow> real) \<Rightarrow> bool" where
  "number_radd radd =
     ((\<forall>a d. 0 \<le> a \<and> 0 \<le> d \<longrightarrow> 0 \<le> radd a d) \<and> (\<forall>a b d. a \<le> b \<longrightarrow> radd a d \<le> radd b d))"

text \<open>The fed timer (after \<open>wanderTimer += delta\<close>): count up, and revert at maxFedTime.\<close>

definition update_fedTimer :: "(real \<Rightarrow> real \<Rightarrow> real) \<Rightarrow> real \<Rightarrow> cow \<Rightarrow> cow" where
  "update_fedTimer radd delta c =
     (if isFed c then
        (let c1 = c\<lparr>fedTimer := radd (fedTimer c) delta\<rparr> in
         if fedTimer c1 \<ge> maxFedTime c1
         then updateBodyColor False (c1\<lparr>isFed := False, followTarget := None, fedTimer := 0\<rparr>)
         else c1)
      else c)"

text \<open>Following the target.\<close>

definition update_follow :: "vec3 \<Rightarrow> cow \<Rightarrow> cow" where
  "update_follow target c =
     (let directionToTarget = v_sub target (position c);
          distanceToTarget = v_length directionToTarget
      in if distanceToTarget > 2
         then c\<lparr>direction := normalize directionToTarget, speed := 1.5\<rparr>
         else c\<lparr>direction := Vector3 0 0 0\<rparr>)"

text \<open>Wandering: a new speed on every tick, a new heading when the timer or the border says so.\<close>

definition update_wander :: "worldBounds \<Rightarrow> cow \<Rightarrow> rng \<Rightarrow> cow \<times> rng" where
  "update_wander wb c g =
     (let (r_speed, g1) = Math_random g;
          c1 = c\<lparr>speed := 0.5 + r_speed * 0.5\<rparr>
      in if wanderTimer c1 \<ge> maxWanderTime c1 \<or> isNearWorldBounds wb c1
         then (let (r_wander, g2) = Math_random g1;
                   (r_dx, g3) = Math_random g2;
                   (r_dz, g4) = Math_random g3
               in (c1\<lparr>wanderTimer := 0,
                       maxWanderTime := 3 + r_wander * 4,
                       direction := normalize (Vector3 ((r_dx - 0.5) * 2) 0 ((r_dz - 0.5) * 2))\<rparr>,
                   g4))
         else (c1, g1))"

definition update_behavior :: "worldBounds \<Rightarrow> cow \<Rightarrow> rng \<Rightarrow> cow \<times> rng" where
  "update_behavior wb c g =
     (case followTarget c of
        Some target \<Rightarrow> if isFed c then (update_follow target c, g) else update_wander wb c g
      | None \<Rightarrow> update_wander wb c g)"

text \<open>The movement step, then the clamp of \<open>x\<close> and \<open>z\<close>.\<close>

definition update_move :: "real \<Rightarrow> worldBounds \<Rightarrow> cow \<Rightarrow> cow" where
  "update_move delta wb c =
     (let movement = multiplyScalar (direction c) (speed c * delta);
          p = v_add (position c) movement;
          p1 = p\<lparr>vx := max (min_bound wb + 2) (min (max_bound wb - 2) (vx p))\<rparr>;
          p2 = p1\<lparr>vz := max (min_bound wb + 2) (min (max_bound wb - 2) (vz p1))\<rparr>
      in c\<lparr>position := p2\<rparr>)"

definition Cow_update ::
  "(real \<Rightarrow> real \<Rightarrow> real) \<Rightarrow> real \<Rightarrow> worldBounds \<Rightarrow> cow \<Rightarrow> rng \<Rightarrow> cow \<times> rng" where
  "Cow_update radd delta wb c g =
     (let c1 = c\<lparr>wanderTimer := radd (wanderTimer c) delta\<rparr>;
          c2 = update_fedTimer radd delta c1;
          (c3, g') = update_behavior wb c2 g
      in (update_move delta wb c3, g'))"

subsection \<open>The cow part of the animate loop\<close>

text \<open>
  Each frame, animate copies the camera position into the follow target of a fed cow and
  then calls update with the bounds \<open>{min: -20, max: 20}\<close>. \<open>run_ticks\<close> is a run of frames,
  each given by the camera position and the clock's delta.
\<close>

definition animate_worldBounds :: worldBounds where
  "animate_worldBounds = \<lparr>min_bound = -20, max_bound = 20\<rparr>"

definition retarget :: "vec3 \<Rightarrow> cow \<Rightarrow> cow" where
  "retarget cameraPosition c =
     (if isFed c \<and> followTarget c \<noteq> None then c\<lparr>followTarget := Some cameraPosition\<rparr> else c)"

definition animate_cow ::
  "(real \<Rightarrow> real \<Rightarrow> real) \<Rightarrow> vec3 \<Rightarrow> real \<Rightarrow> cow \<Rightarrow> rng \<Rightarrow> cow \<times> rng" where
  "animate_cow radd cameraPosition delta c g =
     Cow_update radd delta animate_worldBounds (retarget cameraPosition c) g"

fun run_ticks ::
  "(real \<Rightarrow> real \<Rightarrow> real) \<Rightarrow> (vec3 \<times> real) list \<Rightarrow> cow \<Rightarrow> rng \<Rightarrow> cow \<times> rng" where
  "run_ticks radd [] c g = (c, g)"
| "run_ticks radd ((cam, delta) # ticks) c g =
     (let (c', g') = animate_cow radd cam delta c g in run_ticks radd ticks c' g')"

text \<open>
  The fed timer as the frames accumulate it: \<open>timer_after radd t deltas\<close> is the timer that
  starts at \<open>t\<close> after the deltas have been added one by one, and \<open>timer_below radd limit t
  deltas\<close> says that it is below the limit after each of them.
\<close>

fun timer_after :: "(real \<Rightarrow> real \<Rightarrow> real) \<Rightarrow> real \<Rightarrow> real list \<Rightarrow> real" where
  "timer_after radd t [] = t"
| "timer_after radd t (d # ds) = timer_after radd (radd t d) ds"

fun timer_below :: "(real \<Rightarrow> real \<Rightarrow> real) \<Rightarrow> real \<Rightarrow> real \<Rightarrow> real list \<Rightarrow> bool" where
  "timer_below radd limit t [] = True"
| "timer_below radd limit t (d # ds) = (radd t d < limit \<and> timer_below radd limit (radd t d) ds)"

text \<open>
  The cows the program can hold: built by the constructor, then fed, retargeted and
  updated, with random draws in \<open>[0, 1)\<close>, clock deltas that are not negative and an
  addition that satisfies \<open>number_radd\<close>.
\<close>

inductive cow_reachable :: "cow \<Rightarrow> bool" where
  reach_new: "rng_ok g \<Longrightarrow> cow_reachable (fst (Cow_new h x y z g))"
| reach_feed: "cow_reachable c \<Longrightarrow> cow_reachable (Cow_feed p c)"
| reach_retarget: "cow_reachable c \<Longrightarrow> cow_reachable (retarget p c)"
| reach_update: "cow_reachable c \<Longrightarrow> rng_ok g \<Longrightarrow> 0 \<le> delta \<Longrightarrow> number_radd radd \<Longrightarrow>
     cow_reachable (fst (Cow_update radd delta wb c g))"

text \<open>
  The invariant of the reachable cows: the fed duration is 10, the wander interval lies
  in \<open>[3, 7)\<close>, the timers are not negative; a fed cow has a follow target, the happy
  material, and a fed timer no larger than its wander timer; a cow that is not fed has a
  horizontal heading, no follow target, a fed timer of zero and the normal material.
\<close>

definition cow_inv :: "cow \<Rightarrow> bool" where
  "cow_inv c =
     (maxFedTime c = 10 \<and> 3 \<le> maxWanderTime c \<and> maxWanderTime c < 7
      \<and> 0 \<le> wanderTimer c \<and> 0 \<le> fedTimer c
      \<and> (if isFed c
         then fedTimer c \<le> wanderTimer c \<and> followTarget c \<noteq> None \<and> body_happy c
         else vy (direction c) = 0 \<and> followTarget c = None \<and> fedTimer c = 0 \<and> \<not> body_happy c))"

section \<open>The coordinate key codec\<close>

text \<open>
  Block coordinates are integers. The template literal of getBlockKey prints each with
  Number's ToString, which for an integer is its decimal numeral with a leading minus sign
  when negative (below \<open>10^21\<close> in magnitude, far beyond any coordinate of the world; the
  model prints every \<^typ>\<open>int\<close> so). parseBlockKey splits the key at the commas and
  applies Number to each part; destructuring reads the first three elements, a missing
  one being undefined.

  \<open>js_Number\<close> is Number on a string, modelled on the integer literals: it trims white
  space, reads the empty string as 0 and a run of decimal digits with an optional sign as
  that integer. \<open>NotAnInteger\<close> stands for every other outcome (NaN, or the value of a
  literal with a fraction, an exponent, a radix prefix or Infinity), which the codec never
  meets on a key that getBlockKey built.
\<close>

record 'a Position =
  pos_x :: 'a
  pos_y :: 'a
  pos_z :: 'a

datatype jsvalue = Num int | NotAnInteger | Undefined

text \<open>Printing an integer.\<close>

definition digit_char :: "nat \<Rightarrow> char" where
  "digit_char d = ''0123456789'' ! d"

fun nat_digits :: "nat \<Rightarrow> string" where
  "nat_digits n = (if n < 10 then [digit_char n] else nat_digits (n div 10) @ [digit_char (n mod 10)])"

definition Number_toString :: "int \<Rightarrow> string" where
  "Number_toString i = (if i < 0 then CHR ''-'' # nat_digits (nat (- i)) else nat_digits (nat i))"

definition getBlockKey :: "int \<Rightarrow> int \<Rightarrow> int \<Rightarrow> string" where
  "getBlockKey x y z = Number_toString x @ '','' @ Number_toString y @ '','' @ Number_toString z"

text \<open>\<^verbatim>\<open>key.split(',')\<close>: the pieces between the separators; the empty string gives one empty piece.\<close>

fun split_on :: "char \<Rightarrow> string \<Rightarrow> string list" where
  "split_on sep [] = [[]]"
| "split_on sep (c # cs) =
     (if c = sep then [] # split_on sep cs
      else (case split_on sep cs of [] \<Rightarrow> [[c]] | p # ps \<Rightarrow> (c # p) # ps))"

text \<open>Number applied to a string.\<close>

definition isDigit :: "char \<Rightarrow> bool" where
  "isDigit c = (c \<in> set ''0123456789'')"

definition digit_value :: "char \<Rightarrow> nat" where
  "digit_value c = of_char c - 48"

definition digits_value :: "string \<Rightarrow> nat" where
  "digits_value ds = foldl (\<lambda>acc c. 10 * acc + digit_value c) 0 ds"

definition isWhiteSpace :: "char \<Rightarrow> bool" where
  "isWhiteSpace c = (of_char c \<in> {9, 10, 11, 12, 13, 32 :: nat})"

definition trim :: "string \<Rightarrow> string" where
  "trim s = rev (dropWhile isWhiteSpace (rev (dropWhile isWhiteSpace s)))"

definition unsigned_literal :: "string \<Rightarrow> jsvalue" where
  "unsigned_literal ds = (if ds \<noteq> [] \<and> list_all isDigit ds then Num (int (digits_value ds)) else NotAnInteger)"

definition js_Number :: "string \<Rightarrow> jsvalue" where
  "js_Number s =
     (case trim s of
        [] \<Rightarrow> Num 0
      | c # ds \<Rightarrow>
          if c = CHR ''-'' then (case unsigned_literal ds of Num n \<Rightarrow> Num (- n) | v \<Rightarrow> v)
          else if c = CHR ''+'' then unsigned_literal ds
          else unsigned_literal (c # ds))"

definition element :: "jsvalue list \<Rightarrow> nat \<Rightarrow> jsvalue" where
  "element xs i = (if i < length xs then xs ! i else Undefined)"

definition parseBlockKey :: "string \<Rightarrow> jsvalue Position" where
  "parseBlockKey key =
     (let parts = map js_Number (split_on CHR '','' key)
      in \<lparr>pos_x = element parts 0, pos_y = element parts 1, pos_z = element parts 2\<rparr>)"

declare nat_digits.simps [simp del]

section \<open>Targeting\<close>

subsection \<open>THREE.Vector3, by reference\<close>

text \<open>
  three.js's vector methods work in place: \<^verbatim>\<open>a.add(b)\<close>, \<^verbatim>\<open>a.sub(b)\<close>,
  \<^verbatim>\<open>a.multiplyScalar(s)\<close> and \<^verbatim>\<open>a.transformDirection(m)\<close> overwrite \<open>a\<close> and return \<open>a\<close>
  itself; only \<^verbatim>\<open>clone()\<close> makes a new object. getTargetBlock keeps using a vector after
  it has passed it to such a method, so there the vectors live in a store: a reference is
  an address, and each method returns the reference it was called on with the store it
  leaves behind.
\<close>

type_synonym ref = nat

record store =
  cells :: "ref \<Rightarrow> vec3"
  next_ref :: ref

definition empty_store :: store where
  "empty_store = \<lparr>cells = (\<lambda>r. Vector3 0 0 0), next_ref = 0\<rparr>"

definition ref_new :: "vec3 \<Rightarrow> store \<Rightarrow> ref \<times> store" where
  "ref_new v s = (next_ref s, s\<lparr>cells := (cells s)(next_ref s := v), next_ref := Suc (next_ref s)\<rparr>)"

definition ref_clone :: "ref \<Rightarrow> store \<Rightarrow> ref \<times> store" where
  "ref_clone a s = ref_new (cells s a) s"

definition ref_add :: "ref \<Rightarrow> ref \<Rightarrow> store \<Rightarrow> ref \<times> store" where
  "ref_add a b s = (a, s\<lparr>cells := (cells s)(a := v_add (cells s a) (cells s b))\<rparr>)"

definition ref_sub :: "ref \<Rightarrow> ref \<Rightarrow> store \<Rightarrow> ref \<times> store" where
  "ref_sub a b s = (a, s\<lparr>cells := (cells s)(a := v_sub (cells s a) (cells s b))\<rparr>)"

definition ref_multiplyScalar :: "ref \<Rightarrow> real \<Rightarrow> store \<Rightarrow> ref \<times> store" where
  "ref_multiplyScalar a k s = (a, s\<lparr>cells := (cells s)(a := multiplyScalar (cells s a) k)\<rparr>)"

text \<open>
  A Matrix4 is its sixteen \<open>elements\<close>, column by column. transformDirection multiplies by
  the upper left 3x3 block and normalizes. A block's mesh is placed with
  \<^verbatim>\<open>mesh.position.set(x, y, z)\<close> and is neither rotated nor scaled, so its matrixWorld is
  the translation to \<open>(x, y, z)\<close>.
\<close>

type_synonym Matrix4 = "nat \<Rightarrow> real"

definition transformDirection :: "vec3 \<Rightarrow> Matrix4 \<Rightarrow> vec3" where
  "transformDirection v e =
     normalize \<lparr>vx = e 0 * vx v + e 4 * vy v + e 8 * vz v,
                vy = e 1 * vx v + e 5 * vy v + e 9 * vz v,
                vz = e 2 * vx v + e 6 * vy v + e 10 * vz v\<rparr>"

definition ref_transformDirection :: "ref \<Rightarrow> Matrix4 \<Rightarrow> store \<Rightarrow> ref \<times> store" where
  "ref_transformDirection a e s = (a, s\<lparr>cells := (cells s)(a := transformDirection (cells s a) e)\<rparr>)"

definition block_matrixWorld :: "int \<Rightarrow> int \<Rightarrow> int \<Rightarrow> Matrix4" where
  "block_matrixWorld x y z i =
     (if i = 0 \<or> i = 5 \<or> i = 10 \<or> i = 15 then 1
      else if i = 12 then of_int x
      else if i = 13 then of_int y
      else if i = 14 then of_int z
      else 0)"

subsection \<open>Math.round\<close>

text \<open>The nearest integer, a tie going to the larger one: \<open>Math.round(0.5) = 1\<close>, \<open>Math.round(-0.5) = 0\<close>.\<close>

definition Math_round :: "real \<Rightarrow> int" where
  "Math_round x = \<lfloor>x + 1 / 2\<rfloor>"

subsection \<open>getTargetBlock and raycastBlock\<close>

text \<open>
  The ray cast is three.js's (\<^verbatim>\<open>raycaster.intersectObjects\<close>); the functions are modelled
  from its answer on, the list of intersections sorted by distance. An intersection
  carries the hit point, the face's normal when there is a face, and the hit object: its
  handle, its parent's handle if it has one, and its matrixWorld. getTargetBlock first
  puts the intersection's two vectors into the store and clones them, as the source does,
  and then works on the clones.
\<close>

record intersection =
  point :: vec3
  face_normal :: "vec3 option"
  object_id :: nat
  object_parent :: "nat option"
  object_matrixWorld :: Matrix4

record TargetResult =
  place :: "int Position"
  remove :: "int Position"

definition getTargetBlock :: "intersection list \<Rightarrow> TargetResult option" where
  "getTargetBlock intersects =
     (case intersects of
        [] \<Rightarrow> None
      | intersect # _ \<Rightarrow>
          (case face_normal intersect of
             None \<Rightarrow> None
           | Some n \<Rightarrow>
               (let (intersect_point, s0) = ref_new (point intersect) empty_store;
                    (face_normal_r, s0') = ref_new n s0;
                    (point_r, s1) = ref_clone intersect_point s0';
                    (normal_r, s2) = ref_clone face_normal_r s1;
                    (normal_r, s3) = ref_transformDirection normal_r (object_matrixWorld intersect) s2;
                    (half_r, s4) = ref_multiplyScalar normal_r 0.5 s3;
                    (placePosition, s5) = ref_add point_r half_r s4;
                    placeX = Math_round (vx (cells s5 placePosition));
                    placeY = Math_round (vy (cells s5 placePosition));
                    placeZ = Math_round (vz (cells s5 placePosition));
                    (removePosition, s6) = ref_sub point_r normal_r s5;
                    removeX = Math_round (vx (cells s6 removePosition));
                    removeY = Math_round (vy (cells s6 removePosition));
                    removeZ = Math_round (vz (cells s6 removePosition))
                in Some \<lparr>place = \<lparr>pos_x = placeX, pos_y = placeY, pos_z = placeZ\<rparr>,
                         remove = \<lparr>pos_x = removeX, pos_y = removeY, pos_z = removeZ\<rparr>\<rparr>)))"

text \<open>raycastBlock in utils.ts has the same body, statement for statement.\<close>

definition raycastBlock :: "intersection list \<Rightarrow> TargetResult option" where
  "raycastBlock intersects = getTargetBlock intersects"

text \<open>
  What the claim asks of a hit: the struck cube is the unit cube centred at the integer
  point \<open>c\<close>, the normal \<open>n\<close> is one of the six axis directions, and the hit point lies on
  the face of the cube that \<open>n\<close> points out of.
\<close>

definition canonical_normals :: "vec3 list" where
  "canonical_normals =
     [Vector3 1 0 0, Vector3 (- 1) 0 0, Vector3 0 1 0, Vector3 0 (- 1) 0, Vector3 0 0 1, Vector3 0 0 (- 1)]"

definition on_face :: "int Position \<Rightarrow> vec3 \<Rightarrow> vec3 \<Rightarrow> bool" where
  "on_face c n p =
     (\<bar>vx p - of_int (pos_x c)\<bar> \<le> 1 / 2 \<and> \<bar>vy p - of_int (pos_y c)\<bar> \<le> 1 / 2
      \<and> \<bar>vz p - of_int (pos_z c)\<bar> \<le> 1 / 2
      \<and> (vx p - of_int (pos_x c)) * vx n + (vy p - of_int (pos_y c)) * vy n
          + (vz p - of_int (pos_z c)) * vz n = 1 / 2)"

definition block_hit :: "int Position \<Rightarrow> vec3 \<Rightarrow> vec3 \<Rightarrow> intersection" where
  "block_hit c n p =
     \<lparr>point = p, face_normal = Some n, object_id = 0, object_parent = None,
      object_matrixWorld = block_matrixWorld (pos_x c) (pos_y c) (pos_z c)\<rparr>"

section \<open>The world store, the scene and the click handler\<close>

text \<open>
  A block's mesh is known by its material and the position it was set to. The world is
  the Map from keys to meshes; the scene holds the meshes of the blocks and the mesh
  groups of the cows, in the order they were added. The cows are the values of the cows
  Map in insertion order, and \<open>Map_set\<close> is \<^verbatim>\<open>cows.set(cow.id, cow)\<close>: a known id keeps its
  place and takes the new cow, a new id goes last.
\<close>

record block_mesh =
  mesh_material :: BlockType
  mesh_position :: "int Position"

datatype scene_object = BlockMesh block_mesh | CowMesh nat

record game =
  world :: "string \<rightharpoonup> block_mesh"
  scene :: "scene_object list"
  cows :: "cow list"

fun Map_set :: "cow \<Rightarrow> cow list \<Rightarrow> cow list" where
  "Map_set c [] = [c]"
| "Map_set c (d # ds) = (if cid d = cid c then c # ds else d # Map_set c ds)"

text \<open>The key that handleClick builds with its own template literal.\<close>

definition position_key :: "int Position \<Rightarrow> string" where
  "position_key p =
     Number_toString (pos_x p) @ '','' @ Number_toString (pos_y p) @ '','' @ Number_toString (pos_z p)"

text \<open>\<^verbatim>\<open>Array.prototype.find\<close>, as the index of the first element that satisfies the test.\<close>

fun find_index :: "('a \<Rightarrow> bool) \<Rightarrow> 'a list \<Rightarrow> nat option" where
  "find_index P [] = None"
| "find_index P (x # xs) = (if P x then Some 0 else map_option Suc (find_index P xs))"

text \<open>
  The first part of handleClick: the ray against the cow meshes. It answers the cows after
  the feed when the click fed a cow (handleClick then returns), and nothing when the
  click goes on to the blocks.
\<close>

definition clickedCowMesh :: "intersection \<Rightarrow> nat" where
  "clickedCowMesh first = (case object_parent first of Some parent \<Rightarrow> parent | None \<Rightarrow> object_id first)"

definition is_clicked :: "nat \<Rightarrow> cow \<Rightarrow> bool" where
  "is_clicked m cow = (mesh cow = m \<or> m \<in> set (mesh_children cow))"

definition click_cow :: "vec3 \<Rightarrow> int \<Rightarrow> intersection list \<Rightarrow> cow list \<Rightarrow> cow list option" where
  "click_cow cameraPosition button cowIntersects cs =
     (case cowIntersects of
        [] \<Rightarrow> None
      | first # _ \<Rightarrow>
          if button = 2 then
            (case find_index (is_clicked (clickedCowMesh first)) cs of
               None \<Rightarrow> None
             | Some i \<Rightarrow>
                 if \<not> isFed (cs ! i) then Some (cs[i := Cow_feed cameraPosition (cs ! i)])
                 else None)
          else None)"

text \<open>The second part: the ray against the blocks, then remove (button 0) or place (button 2).\<close>

definition click_block :: "BlockType \<Rightarrow> int \<Rightarrow> intersection list \<Rightarrow> game \<Rightarrow> game" where
  "click_block selectedBlock button blockIntersects st =
     (case getTargetBlock blockIntersects of
        None \<Rightarrow> st
      | Some target \<Rightarrow>
          if button = 0 then
            (let key = position_key (remove target) in
             case world st key of
               Some m \<Rightarrow> st\<lparr>scene := remove1 (BlockMesh m) (scene st), world := (world st)(key := None)\<rparr>
             | None \<Rightarrow> st)
          else if button = 2 then
            (let key = position_key (place target) in
             if world st key = None then
               (let m = \<lparr>mesh_material = selectedBlock, mesh_position = place target\<rparr>
                in st\<lparr>scene := scene st @ [BlockMesh m], world := (world st)(key \<mapsto> m)\<rparr>)
             else st)
          else st)"

text \<open>
  handleClick of MinecraftGame.tsx. Its parameters are what the closure reads: the lock
  flag, the selected block type, the camera position, the event's button, and the two ray
  casts' answers (against the cow meshes, against the block meshes).
\<close>

definition handleClick ::
  "bool \<Rightarrow> BlockType \<Rightarrow> vec3 \<Rightarrow> int \<Rightarrow> intersection list \<Rightarrow> intersection list \<Rightarrow> game \<Rightarrow> game" where
  "handleClick isMouseLocked selectedBlock cameraPosition button cowIntersects blockIntersects st =
     (if \<not> isMouseLocked then st
      else case click_cow cameraPosition button cowIntersects (cows st) of
             Some cs \<Rightarrow> st\<lparr>cows := cs\<rparr>
           | None \<Rightarrow> click_block selectedBlock button blockIntersects st)"

text \<open>handleClick of the earlier version of the component (part_000), which has no cows.\<close>

definition handleClick_part_000 :: "bool \<Rightarrow> BlockType \<Rightarrow> int \<Rightarrow> intersection list \<Rightarrow> game \<Rightarrow> game" where
  "handleClick_part_000 isMouseLocked selectedBlock button blockIntersects st =
     (if \<not> isMouseLocked then st else click_block selectedBlock button blockIntersects st)"

subsection \<open>A scene for the click handler\<close>

text \<open>
  One grass block at the origin and one cow standing on it, already fed; the camera is
  straight above and looks down, so its ray meets the cow's body first and then the top
  face of the block at \<open>(0, 1/2, 0)\<close>.
\<close>

definition above_camera :: vec3 where
  "above_camera = Vector3 0 10 0"

definition fed_cow :: cow where
  "fed_cow = Cow_feed above_camera (fst (Cow_new 100 0 1 0 (\<lambda>n. 1 / 2)))"

definition origin_block :: block_mesh where
  "origin_block = \<lparr>mesh_material = GRASS, mesh_position = \<lparr>pos_x = 0, pos_y = 0, pos_z = 0\<rparr>\<rparr>"

definition fed_cow_scene :: game where
  "fed_cow_scene =
     \<lparr>world = [''0,0,0'' \<mapsto> origin_block],
      scene = [BlockMesh origin_block, CowMesh 100],
      cows = [fed_cow]\<rparr>"

definition cow_body_hit :: intersection where
  "cow_body_hit =
     \<lparr>point = Vector3 0 (9 / 5) 0, face_normal = Some (Vector3 0 1 0), object_id = 101,
      object_parent = Some 100, object_matrixWorld = block_matrixWorld 0 1 0\<rparr>"

definition top_face_hit :: intersection where
  "top_face_hit = block_hit \<lparr>pos_x = 0, pos_y = 0, pos_z = 0\<rparr> (Vector3 0 1 0) (Vector3 0 (1 / 2) 0)"

text \<open>The same scene with a stone block in the cell above the grass block.\<close>

definition covered_scene :: game where
  "covered_scene =
     fed_cow_scene\<lparr>world := (world fed_cow_scene)
       (''0,1,0'' \<mapsto> \<lparr>mesh_material = STONE, mesh_position = \<lparr>pos_x = 0, pos_y = 1, pos_z = 0\<rparr>\<rparr>)\<rparr>"

section \<open>Spawning the cows\<close>

text \<open>
  noise and getTerrainHeight of utils.ts; the column height of generateWorld and the
  \<open>y\<close> of spawnCows repeat the formula inline.
\<close>

definition noise :: "real \<Rightarrow> real \<Rightarrow> real" where
  "noise x z = sin (x * 0.1) * cos (z * 0.1) * 3"

definition getTerrainHeight :: "real \<Rightarrow> real \<Rightarrow> int" where
  "getTerrainHeight x z = \<lfloor>noise x z\<rfloor> + 5"

text \<open>
  The do-while loop of spawnCows. Its only exit test is \<open>attempts < 50\<close>; \<open>attempts\<close> is
  the counter on entry to the body, and the result is the position sampled by the last
  pass with the random source left over.
\<close>

function spawn_search :: "nat \<Rightarrow> rng \<Rightarrow> (real \<times> real \<times> real) \<times> rng" where
  "spawn_search attempts g =
     (let size = 15;
          (r1, g1) = Math_random g;
          x = r1 * size * 2 - size;
          (r2, g2) = Math_random g1;
          z = r2 * size * 2 - size;
          y = of_int (\<lfloor>sin (x * 0.1) * cos (z * 0.1) * 3\<rfloor> + 6);
          attempts' = attempts + 1
      in if attempts' < 50 then spawn_search attempts' g2 else ((x, y, z), g2))"
  by pat_completeness auto
termination
  by (relation "measure (\<lambda>(attempts, g). 50 - attempts)") (auto simp: Math_random_def)

declare spawn_search.simps [simp del]

text \<open>
  The for loop of spawnCows, by the number of cows still to spawn; \<open>h\<close> is the next free
  object handle (a cow's mesh takes fourteen: the group and its children).
\<close>

fun spawnCows_loop :: "nat \<Rightarrow> cow list \<Rightarrow> scene_object list \<Rightarrow> nat \<Rightarrow> rng
    \<Rightarrow> cow list \<times> scene_object list \<times> nat \<times> rng" where
  "spawnCows_loop 0 cs sc h g = (cs, sc, h, g)"
| "spawnCows_loop (Suc n) cs sc h g =
     (let ((x, y, z), g1) = spawn_search 0 g;
          (cow, g2) = Cow_new h x y z g1
      in spawnCows_loop n (Map_set cow cs) (sc @ [CowMesh (mesh cow)]) (h + 14) g2)"

definition spawnCows :: "scene_object list \<Rightarrow> nat \<Rightarrow> nat \<Rightarrow> rng
    \<Rightarrow> cow list \<times> scene_object list \<times> nat \<times> rng" where
  "spawnCows sc count h g = spawnCows_loop count [] sc h g"

text \<open>One pass of the loop body: the candidate it samples and the random source it leaves.\<close>

definition sample_position :: "rng \<Rightarrow> (real \<times> real \<times> real) \<times> rng" where
  "sample_position g =
     (let size = 15;
          (r1, g1) = Math_random g;
          x = r1 * size * 2 - size;
          (r2, g2) = Math_random g1;
          z = r2 * size * 2 - size;
          y = of_int (\<lfloor>sin (x * 0.1) * cos (z * 0.1) * 3\<rfloor> + 6)
      in ((x, y, z), g2))"

subsection \<open>The terrain that generateWorld builds\<close>

text \<open>
  For every integer column \<open>(x, z)\<close> with \<open>-20 \<le> x, z \<le> 20\<close> generateWorld puts a block
  into each cell \<open>y = 0 .. height\<close>, the height being the terrain formula at the column
  (it repeats getTerrainHeight inline). A block is the unit cube around its integer
  position, so a point lies in the cube of the cell that its rounded coordinates name. A
  point is inside the terrain when that cell holds a terrain block, and it is on the
  ground when its cell holds none and the cell right below is a terrain block.
\<close>

definition terrain_block :: "int \<Rightarrow> int \<Rightarrow> int \<Rightarrow> bool" where
  "terrain_block x y z =
     (- 20 \<le> x \<and> x \<le> 20 \<and> - 20 \<le> z \<and> z \<le> 20
      \<and> 0 \<le> y \<and> y \<le> getTerrainHeight (of_int x) (of_int z))"

definition inside_terrain :: "vec3 \<Rightarrow> bool" where
  "inside_terrain p = terrain_block (Math_round (vx p)) (Math_round (vy p)) (Math_round (vz p))"

definition on_ground :: "vec3 \<Rightarrow> bool" where
  "on_ground p =
     (\<not> terrain_block (Math_round (vx p)) (Math_round (vy p)) (Math_round (vz p))
      \<and> terrain_block (Math_round (vx p)) (Math_round (vy p) - 1) (Math_round (vz p)))"

text \<open>
  A random source for one spawn: every draw is 1/2, but for draw 98 (the first draw of the
  50th pass), which is 31/64.
\<close>

definition late_source :: rng where
  "late_source n = (if n = 98 then 31 / 64 else 1 / 2)"

section \<open>Properties of the classifier\<close>

lemma generateWorld_blockType_eq: "generateWorld_blockType y h = getBlockType y h"
  by (simp add: generateWorld_blockType_def getBlockType_def)

text \<open>
  Claim C7. For every integer \<open>y\<close> with \<open>0 \<le> y \<le> columnHeight\<close> the classifier (the exported
  getBlockType and the copy inlined in generateWorld alike) returns Grass exactly when
  \<open>y = columnHeight\<close>, Dirt exactly when \<open>columnHeight - 3 \<le> y < columnHeight\<close>, and Stone
  exactly when \<open>y < columnHeight - 3\<close>. For \<open>columnHeight = 5\<close> the column is Stone, Stone, Dirt,
  Dirt, Dirt, Grass from \<open>y = 0\<close> to \<open>y = 5\<close>.
\<close>

theorem classify_boundaries:
  assumes "0 \<le> y" and "y \<le> h"
  shows "(getBlockType y h = GRASS) = (y = h)
       \<and> (getBlockType y h = DIRT) = (h - 3 \<le> y \<and> y < h)
       \<and> (getBlockType y h = STONE) = (y < h - 3)
       \<and> generateWorld_blockType y h = getBlockType y h
       \<and> map (\<lambda>y. getBlockType y 5) [0, 1, 2, 3, 4, 5] = [STONE, STONE, DIRT, DIRT, DIRT, GRASS]
       \<and> generateColumn 5 = [(0, STONE), (1, STONE), (2, DIRT), (3, DIRT), (4, DIRT), (5, GRASS)]"
proof -
  have "[0..5::int] = [0, 1, 2, 3, 4, 5]"
    by (simp add: upto_rec1)
  then have "generateColumn 5 = [(0, STONE), (1, STONE), (2, DIRT), (3, DIRT), (4, DIRT), (5, GRASS)]"
    by (simp add: generateColumn_def generateWorld_blockType_def)
  with assms show ?thesis
    by (auto simp: getBlockType_def generateWorld_blockType_def)
qed

theorem classify_boundaries_witness:
  "(0::int) \<le> 2 \<and> (2::int) \<le> 5
   \<and> (getBlockType 2 5 = GRASS) = ((2::int) = 5)
   \<and> (getBlockType 2 5 = DIRT) = ((5::int) - 3 \<le> 2 \<and> (2::int) < 5)
   \<and> (getBlockType 2 5 = STONE) = ((2::int) < 5 - 3)
   \<and> getBlockType 2 5 = DIRT"
  using classify_boundaries [of 2 5] by (simp add: getBlockType_def)

text \<open>
  Claim C9. getBlockType is total, and above the column top it answers Dirt: for every
  integer \<open>y\<close> strictly greater than \<open>terrainHeight\<close> the result is Dirt, so neither Grass nor
  Stone.
\<close>

theorem getBlockType_above_surface:
  "terrainHeight < y \<Longrightarrow>
     getBlockType y terrainHeight = DIRT
     \<and> getBlockType y terrainHeight \<noteq> GRASS
     \<and> getBlockType y terrainHeight \<noteq> STONE"
  by (simp add: getBlockType_def)

theorem getBlockType_above_surface_witness:
  "(5::int) < 6 \<and> getBlockType 6 5 = DIRT \<and> getBlockType 6 5 \<noteq> GRASS \<and> getBlockType 6 5 \<noteq> STONE"
  using getBlockType_above_surface [of 5 6] by simp

section \<open>Properties of the Cow class\<close>

lemma Cow_update_eq:
  "Cow_update radd delta wb c g =
     (update_move delta wb (fst (update_behavior wb
        (update_fedTimer radd delta (c\<lparr>wanderTimer := radd (wanderTimer c) delta\<rparr>)) g)),
      snd (update_behavior wb
        (update_fedTimer radd delta (c\<lparr>wanderTimer := radd (wanderTimer c) delta\<rparr>)) g))"
  by (simp add: Cow_update_def Let_def split: prod.splits)

lemma rng_ok_draw: "rng_ok g \<Longrightarrow> 0 \<le> fst (Math_random g) \<and> fst (Math_random g) < 1 \<and> rng_ok (snd (Math_random g))"
  by (simp add: rng_ok_def Math_random_def)

lemma normalize_vy: "vy v = 0 \<Longrightarrow> vy (normalize v) = 0"
  by (simp add: normalize_def divideScalar_def multiplyScalar_def)

lemma vy_Vector3: "vy (Vector3 a b c) = b"
  by (simp add: Vector3_def)

lemma cow_inv_new: "rng_ok g \<Longrightarrow> cow_inv (fst (Cow_new h x y z g))"
  using rng_ok_draw [of g] rng_ok_draw [of "snd (Math_random g)"]
    rng_ok_draw [of "snd (Math_random (snd (Math_random g)))"]
    rng_ok_draw [of "snd (Math_random (snd (Math_random (snd (Math_random g)))))"]
    rng_ok_draw [of "snd (Math_random (snd (Math_random (snd (Math_random (snd (Math_random g)))))))"]
  by (simp add: Cow_new_def cow_inv_def split_beta Let_def normalize_vy vy_Vector3)

lemma cow_inv_feed: "cow_inv c \<Longrightarrow> cow_inv (Cow_feed p c)"
  by (simp add: cow_inv_def Cow_feed_def updateBodyColor_def split: if_splits)

lemma cow_inv_retarget: "cow_inv c \<Longrightarrow> cow_inv (retarget p c)"
  by (simp add: cow_inv_def retarget_def split: if_splits)

lemma update_move_fields:
  "isFed (update_move d wb c) = isFed c" "fedTimer (update_move d wb c) = fedTimer c"
  "followTarget (update_move d wb c) = followTarget c" "maxFedTime (update_move d wb c) = maxFedTime c"
  "body_happy (update_move d wb c) = body_happy c" "wanderTimer (update_move d wb c) = wanderTimer c"
  "maxWanderTime (update_move d wb c) = maxWanderTime c" "direction (update_move d wb c) = direction c"
  by (simp_all add: update_move_def Let_def)

lemma update_wander_fields:
  "isFed (fst (update_wander wb c g)) = isFed c" "fedTimer (fst (update_wander wb c g)) = fedTimer c"
  "followTarget (fst (update_wander wb c g)) = followTarget c" "maxFedTime (fst (update_wander wb c g)) = maxFedTime c"
  "body_happy (fst (update_wander wb c g)) = body_happy c" "position (fst (update_wander wb c g)) = position c"
  by (simp_all add: update_wander_def Let_def split_beta)

lemma update_follow_fields:
  "isFed (update_follow t c) = isFed c" "fedTimer (update_follow t c) = fedTimer c"
  "followTarget (update_follow t c) = followTarget c" "maxFedTime (update_follow t c) = maxFedTime c"
  "body_happy (update_follow t c) = body_happy c" "position (update_follow t c) = position c"
  "wanderTimer (update_follow t c) = wanderTimer c" "maxWanderTime (update_follow t c) = maxWanderTime c"
  by (simp_all add: update_follow_def Let_def)

lemma update_behavior_fields:
  "isFed (fst (update_behavior wb c g)) = isFed c" "fedTimer (fst (update_behavior wb c g)) = fedTimer c"
  "followTarget (fst (update_behavior wb c g)) = followTarget c" "maxFedTime (fst (update_behavior wb c g)) = maxFedTime c"
  "body_happy (fst (update_behavior wb c g)) = body_happy c" "position (fst (update_behavior wb c g)) = position c"
  by (simp_all add: update_behavior_def update_wander_fields update_follow_fields split: option.splits)

lemma update_wander_inv:
  assumes "rng_ok g" and "maxFedTime c = 10" and "3 \<le> maxWanderTime c" and "maxWanderTime c < 7"
    and "0 \<le> wanderTimer c"
  shows "3 \<le> maxWanderTime (fst (update_wander wb c g))"
    and "maxWanderTime (fst (update_wander wb c g)) < 7"
    and "0 \<le> wanderTimer (fst (update_wander wb c g))"
    and "vy (direction c) = 0 \<or> maxWanderTime c \<le> wanderTimer c \<Longrightarrow> vy (direction (fst (update_wander wb c g))) = 0"
  using assms rng_ok_draw [of g] rng_ok_draw [of "snd (Math_random g)"]
    rng_ok_draw [of "snd (Math_random (snd (Math_random g)))"]
  by (auto simp add: update_wander_def Let_def split_beta normalize_vy vy_Vector3)

lemma number_raddD:
  assumes "number_radd radd"
  shows "0 \<le> a \<Longrightarrow> 0 \<le> d \<Longrightarrow> 0 \<le> radd a d" and "a \<le> b \<Longrightarrow> radd a d \<le> radd b d"
  using assms by (simp_all add: number_radd_def)

lemma number_radd_exact: "number_radd (+)"
  by (simp add: number_radd_def)

lemma cow_inv_update:
  assumes "cow_inv c" and "rng_ok g" and "0 \<le> delta" and "number_radd radd"
  shows "cow_inv (fst (Cow_update radd delta wb c g))"
proof (cases "isFed c")
  case False
  let ?c1 = "c\<lparr>wanderTimer := radd (wanderTimer c) delta\<rparr>"
  from False have eq: "update_fedTimer radd delta ?c1 = ?c1"
    by (simp add: update_fedTimer_def)
  from False assms have beh: "update_behavior wb ?c1 g = update_wander wb ?c1 g"
    by (simp add: update_behavior_def cow_inv_def)
  from assms(1,3) have "0 \<le> radd (wanderTimer c) delta"
    by (intro number_raddD(1) [OF assms(4)]) (simp_all add: cow_inv_def)
  with assms False have pre: "maxFedTime ?c1 = 10" "3 \<le> maxWanderTime ?c1" "maxWanderTime ?c1 < 7"
     "0 \<le> wanderTimer ?c1" "vy (direction ?c1) = 0"
    by (simp_all add: cow_inv_def)
  show ?thesis
    using update_wander_inv [OF assms(2) pre(1-4), of wb] pre(5) assms(1) False
    by (simp add: Cow_update_eq eq beh cow_inv_def update_move_fields update_wander_fields)
next
  case True
  let ?c1 = "c\<lparr>wanderTimer := radd (wanderTimer c) delta\<rparr>"
  from assms(1,3) have w0: "0 \<le> radd (wanderTimer c) delta" and f0: "0 \<le> radd (fedTimer c) delta"
    by (intro number_raddD(1) [OF assms(4)]; simp add: cow_inv_def)+
  from assms(1) True have fw: "radd (fedTimer c) delta \<le> radd (wanderTimer c) delta"
    by (intro number_raddD(2) [OF assms(4)]) (simp add: cow_inv_def)
  show ?thesis
  proof (cases "radd (fedTimer c) delta \<ge> 10")
    case False
    with True assms have eq: "update_fedTimer radd delta ?c1 = ?c1\<lparr>fedTimer := radd (fedTimer c) delta\<rparr>"
      by (simp add: update_fedTimer_def cow_inv_def)
    from True assms obtain t where t: "followTarget c = Some t" by (auto simp: cow_inv_def)
    with True have beh: "update_behavior wb (?c1\<lparr>fedTimer := radd (fedTimer c) delta\<rparr>) g
        = (update_follow t (?c1\<lparr>fedTimer := radd (fedTimer c) delta\<rparr>), g)"
      by (simp add: update_behavior_def)
    show ?thesis using assms(1) True t w0 f0 fw
      by (simp add: Cow_update_eq eq beh cow_inv_def update_move_fields update_follow_fields)
  next
    case timeout: True
    let ?c2 = "?c1\<lparr>isFed := False, followTarget := None, fedTimer := 0, body_happy := False\<rparr>"
    from True timeout assms have eq: "update_fedTimer radd delta ?c1 = ?c2"
      by (simp add: update_fedTimer_def cow_inv_def updateBodyColor_def)
    have beh: "update_behavior wb ?c2 g = update_wander wb ?c2 g"
      by (simp add: update_behavior_def updateBodyColor_def)
    from assms(1) True timeout w0 fw have pre: "maxFedTime ?c2 = 10" "3 \<le> maxWanderTime ?c2"
      "maxWanderTime ?c2 < 7" "0 \<le> wanderTimer ?c2" "maxWanderTime ?c2 \<le> wanderTimer ?c2"
      by (simp_all add: cow_inv_def)
    show ?thesis
      using update_wander_inv [OF assms(2) pre(1-4), of wb] pre(5) pre(1)
      by (simp add: Cow_update_eq eq beh cow_inv_def update_move_fields update_wander_fields)
  qed
qed

lemma cow_reachable_inv: "cow_reachable c \<Longrightarrow> cow_inv c"
  by (induction rule: cow_reachable.induct)
    (simp_all add: cow_inv_new cow_inv_feed cow_inv_retarget cow_inv_update)


lemma update_move_bounds:
  assumes "min_bound wb + 2 \<le> max_bound wb - 2"
  shows "min_bound wb + 2 \<le> vx (position (update_move delta wb c))"
    and "vx (position (update_move delta wb c)) \<le> max_bound wb - 2"
    and "min_bound wb + 2 \<le> vz (position (update_move delta wb c))"
    and "vz (position (update_move delta wb c)) \<le> max_bound wb - 2"
  using assms by (simp_all add: update_move_def Let_def)

lemma update_move_vy:
  "vy (direction c) = 0 \<Longrightarrow> vy (position (update_move delta wb c)) = vy (position c)"
  by (simp add: update_move_def Let_def v_add_def multiplyScalar_def)

lemma update_wander_heading_vy:
  "vy (direction c) = 0 \<Longrightarrow> vy (direction (fst (update_wander wb c g))) = 0"
  by (simp add: update_wander_def Let_def split_beta normalize_vy vy_Vector3)

lemma Cow_new_heading_vy: "vy (direction (fst (Cow_new h x y z g))) = 0"
  by (simp add: Cow_new_def split_beta normalize_vy vy_Vector3)

text \<open>
  Claim C4. Whatever the elapsed delta, the cow's state (wandering or following, any
  heading and speed) and the random draws, after Cow.update the horizontal coordinates
  \<open>x\<close> and \<open>z\<close> of the position lie in \<open>[worldMin + 2, worldMax - 2]\<close>: the clamp is the
  last thing done to the position. The interval has to exist (\<open>worldMin + 2 \<le> worldMax - 2\<close>),
  as it does for the bounds \<open>-20\<close> and \<open>20\<close> that animate passes. It holds for every
  addition \<open>radd\<close> of the timers.
\<close>

theorem Cow_update_within_bounds:
  assumes "min_bound wb + 2 \<le> max_bound wb - 2"
  shows "min_bound wb + 2 \<le> vx (position (fst (Cow_update radd delta wb c g)))
       \<and> vx (position (fst (Cow_update radd delta wb c g))) \<le> max_bound wb - 2
       \<and> min_bound wb + 2 \<le> vz (position (fst (Cow_update radd delta wb c g)))
       \<and> vz (position (fst (Cow_update radd delta wb c g))) \<le> max_bound wb - 2"
  using update_move_bounds [OF assms] by (simp add: Cow_update_eq)

lemma sqrt_half_bound: "35 \<le> 175 / (4 * sqrt (1 / 2 :: real))"
proof -
  have a: "sqrt (1 / 2 :: real) \<le> 1" by (rule real_le_lsqrt) simp_all
  have b: "0 < 4 * sqrt (1 / 2 :: real)" by simp
  have "35 * (4 * sqrt (1 / 2 :: real)) \<le> 175" using a by linarith
  then show ?thesis using b by (subst pos_le_divide_eq) simp_all
qed

lemmas eval_defs = Cow_new_def Math_random_def Vector3_def normalize_def v_length_def divideScalar_def multiplyScalar_def
    Cow_update_def update_fedTimer_def update_behavior_def update_wander_def update_follow_def update_move_def isNearWorldBounds_def animate_worldBounds_def v_add_def v_sub_def
    Cow_feed_def updateBodyColor_def retarget_def animate_cow_def

theorem Cow_update_within_bounds_witness:
  "min_bound animate_worldBounds + 2 \<le> max_bound animate_worldBounds - 2
   \<and> position (fst (Cow_update (+) 100 animate_worldBounds (fst (Cow_new 0 17 6 (- 17) (\<lambda>n. 1 / 2))) (\<lambda>n. 3 / 4)))
       = \<lparr>vx = 18, vy = 6, vz = 18\<rparr>
   \<and> - 20 + 2 \<le> vx (position (fst (Cow_update (+) 100 animate_worldBounds (fst (Cow_new 0 17 6 (- 17) (\<lambda>n. 1 / 2))) (\<lambda>n. 3 / 4))))
   \<and> vx (position (fst (Cow_update (+) 100 animate_worldBounds (fst (Cow_new 0 17 6 (- 17) (\<lambda>n. 1 / 2))) (\<lambda>n. 3 / 4)))) \<le> 20 - 2"
proof -
  have b: "min_bound animate_worldBounds + 2 \<le> max_bound animate_worldBounds - 2"
    by (simp add: animate_worldBounds_def)
  have "35 \<le> 175 / (4 * sqrt (1 / 2 :: real))"
    by (rule sqrt_half_bound)
  then have p: "position (fst (Cow_update (+) 100 animate_worldBounds (fst (Cow_new 0 17 6 (- 17) (\<lambda>n. 1 / 2))) (\<lambda>n. 3 / 4)))
       = \<lparr>vx = 18, vy = 6, vz = 18\<rparr>"
    by (simp add: eval_defs)
  show ?thesis
    using b p Cow_update_within_bounds [OF b, of "(+)" 100 "fst (Cow_new 0 17 6 (- 17) (\<lambda>n. 1 / 2))" "\<lambda>n. 3 / 4"]
    by (simp add: animate_worldBounds_def)
qed

text \<open>
  Claim C10. For a cow the program can hold that is not fed, Cow.update leaves the
  vertical position as it was, for every delta, bounds and random draws: the heading it
  moves along has a zero \<open>y\<close> component after the update as before it, the constructor
  sets such a heading, and the clamp writes \<open>x\<close> and \<open>z\<close> only.
\<close>

theorem Cow_update_wandering_keeps_y:
  assumes "cow_reachable c" and "\<not> isFed c"
  shows "vy (position (fst (Cow_update radd delta wb c g))) = vy (position c)
       \<and> vy (direction (fst (Cow_update radd delta wb c g))) = 0
       \<and> vy (direction (fst (Cow_new h x y z g'))) = 0"
proof -
  from assms have dir: "vy (direction c) = 0" and tgt: "followTarget c = None"
    using cow_reachable_inv [of c] by (simp_all add: cow_inv_def)
  let ?c1 = "c\<lparr>wanderTimer := radd (wanderTimer c) delta\<rparr>"
  from assms(2) have eq: "update_fedTimer radd delta ?c1 = ?c1"
    by (simp add: update_fedTimer_def)
  from tgt have beh: "update_behavior wb ?c1 g = update_wander wb ?c1 g"
    by (simp add: update_behavior_def)
  from dir have h: "vy (direction (fst (update_wander wb ?c1 g))) = 0"
    by (simp add: update_wander_heading_vy)
  show ?thesis
    using h update_move_vy [OF h, of delta wb]
    by (simp add: Cow_update_eq eq beh update_move_fields update_wander_fields Cow_new_heading_vy)
qed

theorem Cow_update_wandering_keeps_y_witness:
  "cow_reachable (fst (Cow_new 0 17 6 (- 17) (\<lambda>n. 1 / 2)))
   \<and> \<not> isFed (fst (Cow_new 0 17 6 (- 17) (\<lambda>n. 1 / 2)))
   \<and> vy (position (fst (Cow_update (+) 100 animate_worldBounds (fst (Cow_new 0 17 6 (- 17) (\<lambda>n. 1 / 2))) (\<lambda>n. 3 / 4)))) = 6"
proof -
  have r: "cow_reachable (fst (Cow_new 0 17 6 (- 17) (\<lambda>n. 1 / 2)))"
    by (rule reach_new) (simp add: rng_ok_def)
  have f: "\<not> isFed (fst (Cow_new 0 17 6 (- 17) (\<lambda>n. 1 / 2)))"
    by (simp add: Cow_new_def split_beta)
  have y: "vy (position (fst (Cow_new 0 17 6 (- 17) (\<lambda>n. 1 / 2)))) = 6"
    by (simp add: Cow_new_def split_beta Vector3_def)
  show ?thesis
    using r f y Cow_update_wandering_keeps_y [OF r f, of "(+)" 100 animate_worldBounds "\<lambda>n. 3 / 4"]
    by simp
qed


lemma animate_cow_following:
  assumes "isFed c" and "followTarget c \<noteq> None" and "radd (fedTimer c) d < maxFedTime c"
  shows "isFed (fst (animate_cow radd cam d c g))"
    and "followTarget (fst (animate_cow radd cam d c g)) = Some cam"
    and "fedTimer (fst (animate_cow radd cam d c g)) = radd (fedTimer c) d"
    and "maxFedTime (fst (animate_cow radd cam d c g)) = maxFedTime c"
    and "body_happy (fst (animate_cow radd cam d c g)) = body_happy c"
  using assms
  by (simp_all add: animate_cow_def Cow_update_eq update_move_fields update_behavior_fields
      update_fedTimer_def retarget_def)

lemma animate_cow_timeout:
  assumes "isFed c" and "maxFedTime c \<le> radd (fedTimer c) d"
  shows "\<not> isFed (fst (animate_cow radd cam d c g))"
    and "followTarget (fst (animate_cow radd cam d c g)) = None"
    and "fedTimer (fst (animate_cow radd cam d c g)) = 0"
    and "\<not> body_happy (fst (animate_cow radd cam d c g))"
  using assms
  by (simp_all add: animate_cow_def Cow_update_eq update_move_fields update_behavior_fields
      update_fedTimer_def retarget_def updateBodyColor_def)

lemma run_ticks_append:
  "run_ticks radd (ts @ us) c g
     = run_ticks radd us (fst (run_ticks radd ts c g)) (snd (run_ticks radd ts c g))"
  by (induction radd ts c g rule: run_ticks.induct) (simp_all add: split_beta)

lemma run_ticks_following:
  assumes "isFed c" and "followTarget c \<noteq> None"
    and "timer_below radd (maxFedTime c) (fedTimer c) (map snd ticks)"
  shows "isFed (fst (run_ticks radd ticks c g))
       \<and> followTarget (fst (run_ticks radd ticks c g)) \<noteq> None
       \<and> fedTimer (fst (run_ticks radd ticks c g)) = timer_after radd (fedTimer c) (map snd ticks)
       \<and> maxFedTime (fst (run_ticks radd ticks c g)) = maxFedTime c
       \<and> body_happy (fst (run_ticks radd ticks c g)) = body_happy c"
  using assms
proof (induction ticks arbitrary: c g)
  case Nil
  then show ?case by simp
next
  case (Cons t ticks)
  obtain cam d where t: "t = (cam, d)" by (cases t)
  from Cons.prems(3) t have now: "radd (fedTimer c) d < maxFedTime c"
    and rest: "timer_below radd (maxFedTime c) (radd (fedTimer c) d) (map snd ticks)"
    by simp_all
  let ?c = "fst (animate_cow radd cam d c g)" and ?g = "snd (animate_cow radd cam d c g)"
  note step = animate_cow_following [where radd = radd and cam = cam and g = g, OF Cons.prems(1,2) now]
  have "isFed (fst (run_ticks radd ticks ?c ?g))
       \<and> followTarget (fst (run_ticks radd ticks ?c ?g)) \<noteq> None
       \<and> fedTimer (fst (run_ticks radd ticks ?c ?g)) = timer_after radd (fedTimer ?c) (map snd ticks)
       \<and> maxFedTime (fst (run_ticks radd ticks ?c ?g)) = maxFedTime ?c
       \<and> body_happy (fst (run_ticks radd ticks ?c ?g)) = body_happy ?c"
    using rest step by (intro Cons.IH) simp_all
  then show ?case using step t by (simp add: split_beta)
qed

text \<open>
  Claim C5. Feeding a wandering cow puts it in Following: fed flag on, follow target set
  to the feeder's position, fed timer zero, happy material on. Over the frames of animate
  that follow (any camera positions), as long as the fed timer that the frames accumulate
  stays below 10 seconds the cow stays so, its fed timer being the accumulated one. The
  frame whose delta takes the accumulated timer to 10 seconds or more reverts the cow to
  Wandering: fed flag off, follow target cleared, fed timer zero, happy material off. The
  timer is accumulated with the addition \<open>radd\<close>, whatever it is, so the statement holds
  of the sums as the program rounds them.
\<close>

theorem feed_then_timeout:
  assumes "cow_reachable c" and "\<not> isFed c"
    and "timer_below radd 10 0 (map snd ticks)"
    and "10 \<le> radd (timer_after radd 0 (map snd ticks)) d"
  shows "(isFed (Cow_feed p c) \<and> followTarget (Cow_feed p c) = Some p
          \<and> fedTimer (Cow_feed p c) = 0 \<and> body_happy (Cow_feed p c))
       \<and> (isFed (fst (run_ticks radd ticks (Cow_feed p c) g))
          \<and> followTarget (fst (run_ticks radd ticks (Cow_feed p c) g)) \<noteq> None
          \<and> fedTimer (fst (run_ticks radd ticks (Cow_feed p c) g)) = timer_after radd 0 (map snd ticks)
          \<and> body_happy (fst (run_ticks radd ticks (Cow_feed p c) g)))
       \<and> (\<not> isFed (fst (run_ticks radd (ticks @ [(cam, d)]) (Cow_feed p c) g))
          \<and> followTarget (fst (run_ticks radd (ticks @ [(cam, d)]) (Cow_feed p c) g)) = None
          \<and> fedTimer (fst (run_ticks radd (ticks @ [(cam, d)]) (Cow_feed p c) g)) = 0
          \<and> \<not> body_happy (fst (run_ticks radd (ticks @ [(cam, d)]) (Cow_feed p c) g)))"
proof -
  from assms(1) have m: "maxFedTime c = 10"
    using cow_reachable_inv [of c] by (simp add: cow_inv_def)
  have fed: "isFed (Cow_feed p c) \<and> followTarget (Cow_feed p c) = Some p
         \<and> fedTimer (Cow_feed p c) = 0 \<and> body_happy (Cow_feed p c)"
    by (simp add: Cow_feed_def updateBodyColor_def)
  have m': "maxFedTime (Cow_feed p c) = 10"
    using m by (simp add: Cow_feed_def updateBodyColor_def)
  let ?c = "fst (run_ticks radd ticks (Cow_feed p c) g)"
  let ?g = "snd (run_ticks radd ticks (Cow_feed p c) g)"
  have run: "isFed ?c \<and> followTarget ?c \<noteq> None
       \<and> fedTimer ?c = timer_after radd (fedTimer (Cow_feed p c)) (map snd ticks)
       \<and> maxFedTime ?c = maxFedTime (Cow_feed p c)
       \<and> body_happy ?c = body_happy (Cow_feed p c)"
    using fed m' assms(3) by (intro run_ticks_following) simp_all
  then have during: "isFed ?c \<and> followTarget ?c \<noteq> None
         \<and> fedTimer ?c = timer_after radd 0 (map snd ticks) \<and> body_happy ?c"
    using fed by simp
  from run fed m' assms(4) have "isFed ?c" and "maxFedTime ?c \<le> radd (fedTimer ?c) d"
    by simp_all
  from animate_cow_timeout [where radd = radd and cam = cam and g = ?g, OF this]
  have "\<not> isFed (fst (run_ticks radd (ticks @ [(cam, d)]) (Cow_feed p c) g))
         \<and> followTarget (fst (run_ticks radd (ticks @ [(cam, d)]) (Cow_feed p c) g)) = None
         \<and> fedTimer (fst (run_ticks radd (ticks @ [(cam, d)]) (Cow_feed p c) g)) = 0
         \<and> \<not> body_happy (fst (run_ticks radd (ticks @ [(cam, d)]) (Cow_feed p c) g))"
    by (simp add: run_ticks_append split_beta)
  with fed during show ?thesis by blast
qed

theorem feed_then_timeout_witness:
  "cow_reachable (fst (Cow_new 0 0 6 0 (\<lambda>n. 1 / 2)))
   \<and> \<not> isFed (fst (Cow_new 0 0 6 0 (\<lambda>n. 1 / 2)))
   \<and> timer_below (+) 10 0 (map snd [(Vector3 0 6 1, 4 :: real), (Vector3 0 6 1, 5)])
   \<and> timer_after (+) 0 (map snd [(Vector3 0 6 1, 4 :: real), (Vector3 0 6 1, 5)]) = 9
   \<and> (10 :: real) \<le> timer_after (+) 0 (map snd [(Vector3 0 6 1, 4 :: real), (Vector3 0 6 1, 5)]) + 1
   \<and> isFed (Cow_feed (Vector3 0 6 1) (fst (Cow_new 0 0 6 0 (\<lambda>n. 1 / 2))))
   \<and> isFed (fst (run_ticks (+) [(Vector3 0 6 1, 4), (Vector3 0 6 1, 5)]
        (Cow_feed (Vector3 0 6 1) (fst (Cow_new 0 0 6 0 (\<lambda>n. 1 / 2)))) (\<lambda>n. 1 / 2)))
   \<and> fedTimer (fst (run_ticks (+) [(Vector3 0 6 1, 4), (Vector3 0 6 1, 5)]
        (Cow_feed (Vector3 0 6 1) (fst (Cow_new 0 0 6 0 (\<lambda>n. 1 / 2)))) (\<lambda>n. 1 / 2))) = 9
   \<and> \<not> isFed (fst (run_ticks (+) ([(Vector3 0 6 1, 4), (Vector3 0 6 1, 5)] @ [(Vector3 0 6 1, 1)])
        (Cow_feed (Vector3 0 6 1) (fst (Cow_new 0 0 6 0 (\<lambda>n. 1 / 2)))) (\<lambda>n. 1 / 2)))
   \<and> followTarget (fst (run_ticks (+) ([(Vector3 0 6 1, 4), (Vector3 0 6 1, 5)] @ [(Vector3 0 6 1, 1)])
        (Cow_feed (Vector3 0 6 1) (fst (Cow_new 0 0 6 0 (\<lambda>n. 1 / 2)))) (\<lambda>n. 1 / 2))) = None
   \<and> \<not> body_happy (fst (run_ticks (+) ([(Vector3 0 6 1, 4), (Vector3 0 6 1, 5)] @ [(Vector3 0 6 1, 1)])
        (Cow_feed (Vector3 0 6 1) (fst (Cow_new 0 0 6 0 (\<lambda>n. 1 / 2)))) (\<lambda>n. 1 / 2)))"
proof -
  have r: "cow_reachable (fst (Cow_new 0 0 6 0 (\<lambda>n. 1 / 2)))"
    by (rule reach_new) (simp add: rng_ok_def)
  have f: "\<not> isFed (fst (Cow_new 0 0 6 0 (\<lambda>n. 1 / 2)))"
    by (simp add: Cow_new_def split_beta)
  have t: "timer_below (+) 10 0 (map snd [(Vector3 0 6 1, 4 :: real), (Vector3 0 6 1, 5)])"
    by simp
  have a: "timer_after (+) 0 (map snd [(Vector3 0 6 1, 4 :: real), (Vector3 0 6 1, 5)]) = 9"
    by simp
  have e: "(10 :: real) \<le> timer_after (+) 0 (map snd [(Vector3 0 6 1, 4 :: real), (Vector3 0 6 1, 5)]) + 1"
    by simp
  show ?thesis
    using r f t a e
      feed_then_timeout [OF r f t e, of "Vector3 0 6 1" "\<lambda>n. 1 / 2" "Vector3 0 6 1"]
    by simp
qed

section \<open>Properties of the key codec\<close>

lemma below_ten: "d < (10::nat) \<Longrightarrow> d \<in> {0, 1, 2, 3, 4, 5, 6, 7, 8, 9}"
  by auto

lemma digit_char_props:
  assumes "d < 10"
  shows "isDigit (digit_char d)" and "digit_value (digit_char d) = d"
    and "digit_char d \<noteq> CHR '',''" and "digit_char d \<noteq> CHR ''-''" and "digit_char d \<noteq> CHR ''+''"
    and "\<not> isWhiteSpace (digit_char d)"
  using below_ten [OF assms]
  by (auto simp: digit_char_def isDigit_def digit_value_def isWhiteSpace_def)

lemma isDigit_props:
  assumes "isDigit c"
  shows "c \<noteq> CHR '',''" and "c \<noteq> CHR ''-''" and "c \<noteq> CHR ''+''" and "\<not> isWhiteSpace c"
  using assms by (auto simp: isDigit_def isWhiteSpace_def)

lemma digits_value_snoc: "digits_value (ds @ [c]) = 10 * digits_value ds + digit_value c"
  by (simp add: digits_value_def)

lemma nat_digits_props:
  "nat_digits n \<noteq> [] \<and> list_all isDigit (nat_digits n) \<and> digits_value (nat_digits n) = n"
proof (induction n rule: nat_digits.induct)
  case (1 n)
  show ?case
  proof (cases "n < 10")
    case True
    then show ?thesis
      by (simp add: nat_digits.simps [of n] digit_char_props digits_value_def)
  next
    case False
    with 1 have "nat_digits (n div 10) \<noteq> [] \<and> list_all isDigit (nat_digits (n div 10))
        \<and> digits_value (nat_digits (n div 10)) = n div 10"
      by simp
    with False show ?thesis
      by (simp add: nat_digits.simps [of n] digits_value_snoc digit_char_props)
  qed
qed

lemma unsigned_literal_nat_digits: "unsigned_literal (nat_digits n) = Num (int n)"
  using nat_digits_props [of n] by (simp add: unsigned_literal_def)

lemma trim_no_space:
  assumes "\<forall>c \<in> set s. \<not> isWhiteSpace c"
  shows "trim s = s"
proof (cases s)
  case Nil
  then show ?thesis by (simp add: trim_def)
next
  case (Cons c cs)
  with assms have a: "dropWhile isWhiteSpace s = s" by simp
  from Cons have "rev s \<noteq> []" by simp
  moreover from assms Cons have "\<not> isWhiteSpace (hd (rev s))"
    by (metis hd_rev last_in_set list.distinct(1))
  ultimately have "dropWhile isWhiteSpace (rev s) = rev s"
    by (simp add: dropWhile_eq_self_iff)
  with a show ?thesis by (simp add: trim_def)
qed

lemma nat_digits_isDigit: "c \<in> set (nat_digits n) \<Longrightarrow> isDigit c"
  using nat_digits_props [of n] by (simp add: list_all_iff)

lemma Number_toString_chars:
  assumes "c \<in> set (Number_toString i)"
  shows "c \<noteq> CHR '','' \<and> \<not> isWhiteSpace c"
proof (cases "c = CHR ''-''")
  case True
  then show ?thesis by (simp add: isWhiteSpace_def)
next
  case False
  with assms have "isDigit c"
    by (auto simp: Number_toString_def nat_digits_isDigit split: if_splits)
  then show ?thesis by (simp add: isDigit_props)
qed

lemma js_Number_toString: "js_Number (Number_toString i) = Num i"
proof -
  have t: "trim (Number_toString i) = Number_toString i"
    by (rule trim_no_space) (simp add: Number_toString_chars)
  show ?thesis
  proof (cases "i < 0")
    case True
    with t have "trim (CHR ''-'' # nat_digits (nat (- i))) = CHR ''-'' # nat_digits (nat (- i))"
      by (simp add: Number_toString_def)
    with True show ?thesis
      by (simp add: js_Number_def Number_toString_def unsigned_literal_nat_digits)
  next
    case False
    obtain c ds where cd: "nat_digits (nat i) = c # ds"
      using nat_digits_props [of "nat i"] by (cases "nat_digits (nat i)") auto
    with nat_digits_props [of "nat i"] have "isDigit c" by simp
    then have "c \<noteq> CHR ''-''" "c \<noteq> CHR ''+''" by (simp_all add: isDigit_props)
    moreover have "unsigned_literal (c # ds) = Num (int (nat i))"
      using unsigned_literal_nat_digits [of "nat i"] cd by simp
    moreover from t False cd have "trim (c # ds) = c # ds"
      by (simp add: Number_toString_def)
    ultimately show ?thesis using False cd
      by (simp add: js_Number_def Number_toString_def)
  qed
qed

lemma split_on_no_sep: "sep \<notin> set a \<Longrightarrow> split_on sep a = [a]"
  by (induction a) auto

lemma split_on_first: "sep \<notin> set a \<Longrightarrow> split_on sep (a @ sep # rest) = a # split_on sep rest"
  by (induction a) auto

lemma split_getBlockKey:
  "split_on CHR '','' (getBlockKey x y z) = [Number_toString x, Number_toString y, Number_toString z]"
proof -
  have n: "CHR '','' \<notin> set (Number_toString i)" for i
    using Number_toString_chars [of "CHR '',''" i] by blast
  show ?thesis
    by (simp add: getBlockKey_def split_on_first [OF n] split_on_no_sep [OF n])
qed

text \<open>
  Claim C6. The key codec round-trips. getBlockKey is a total function of the integer
  triple; parseBlockKey applied to the key of \<open>(x, y, z)\<close> returns exactly \<open>x\<close>, \<open>y\<close> and
  \<open>z\<close>; and getBlockKey is injective: two triples have the same key only when they are the
  same triple.
\<close>

theorem key_codec_round_trip:
  "parseBlockKey (getBlockKey x y z) = \<lparr>pos_x = Num x, pos_y = Num y, pos_z = Num z\<rparr>
   \<and> (getBlockKey x y z = getBlockKey x' y' z') = (x = x' \<and> y = y' \<and> z = z')"
proof -
  have p: "parseBlockKey (getBlockKey a b c) = \<lparr>pos_x = Num a, pos_y = Num b, pos_z = Num c\<rparr>" for a b c
    by (simp add: parseBlockKey_def split_getBlockKey js_Number_toString element_def)
  have "x = x' \<and> y = y' \<and> z = z'" if "getBlockKey x y z = getBlockKey x' y' z'"
  proof -
    from that have "parseBlockKey (getBlockKey x y z) = parseBlockKey (getBlockKey x' y' z')"
      by simp
    then show ?thesis by (simp add: p)
  qed
  with p show ?thesis by blast
qed

section \<open>Properties of targeting\<close>

text \<open>
  By the time \<open>point.sub(normal)\<close> runs, \<open>normal\<close> has been halved in place and \<open>point\<close>
  already holds \<open>point + normal / 2\<close>; the subtraction only undoes the addition. So the
  place cell is the rounding of \<open>point + normal / 2\<close> and the remove cell is the rounding of
  the hit point itself.
\<close>

lemma canonical_normal_length: "n \<in> set canonical_normals \<Longrightarrow> v_length n = 1"
  by (auto simp: canonical_normals_def v_length_def Vector3_def)

lemma normalize_unit: "v_length n = 1 \<Longrightarrow> normalize n = n"
  by (simp add: normalize_def divideScalar_def multiplyScalar_def)

lemma transformDirection_block:
  assumes "v_length n = 1"
  shows "transformDirection n (block_matrixWorld x y z) = n"
proof -
  have "transformDirection n (block_matrixWorld x y z) = normalize n"
    by (cases n) (simp add: transformDirection_def block_matrixWorld_def)
  with assms show ?thesis by (simp add: normalize_unit)
qed

lemma getTargetBlock_unit_normal:
  assumes "v_length n = 1"
  shows "getTargetBlock (block_hit c n p # others) =
     Some \<lparr>place = \<lparr>pos_x = Math_round (vx p + vx n / 2), pos_y = Math_round (vy p + vy n / 2),
                      pos_z = Math_round (vz p + vz n / 2)\<rparr>,
           remove = \<lparr>pos_x = Math_round (vx p), pos_y = Math_round (vy p), pos_z = Math_round (vz p)\<rparr>\<rparr>"
  by (simp add: getTargetBlock_def block_hit_def ref_new_def ref_clone_def empty_store_def
      ref_transformDirection_def transformDirection_block [OF assms] ref_multiplyScalar_def
      ref_add_def ref_sub_def multiplyScalar_def v_add_def v_sub_def)

lemma getTargetBlock_axis_hit:
  assumes "n \<in> set canonical_normals"
  shows "getTargetBlock (block_hit c n p # others) =
     Some \<lparr>place = \<lparr>pos_x = Math_round (vx p + vx n / 2), pos_y = Math_round (vy p + vy n / 2),
                      pos_z = Math_round (vz p + vz n / 2)\<rparr>,
           remove = \<lparr>pos_x = Math_round (vx p), pos_y = Math_round (vy p), pos_z = Math_round (vz p)\<rparr>\<rparr>"
  by (rule getTargetBlock_unit_normal) (rule canonical_normal_length [OF assms])

lemma Math_round_inside:
  assumes "- 1 / 2 \<le> x - of_int k" and "x - of_int k < 1 / 2"
  shows "Math_round x = k"
  using assms unfolding Math_round_def by linarith

text \<open>
  On the three negative faces, and on the three positive faces for the place cell, the
  result is as the claim has it (away from the far edges of the face, where rounding a
  tangential coordinate at \<open>+1/2\<close> moves to the next cell).
\<close>

lemma Math_round_place_coordinate:
  assumes "\<bar>x - of_int k\<bar> \<le> 1 / 2"
    and "(d = 0 \<and> x - of_int k < 1 / 2) \<or> (d = 1 \<and> x - of_int k = 1 / 2) \<or> (d = - 1 \<and> x - of_int k = - 1 / 2)"
  shows "real_of_int (Math_round (x + d / 2)) = of_int k + d"
proof -
  from assms(1) have lo: "- 1 / 2 \<le> x - of_int k" by linarith
  from assms(2) consider "d = 0" "x - of_int k < 1 / 2" | "d = 1" "x = of_int k + 1 / 2"
    | "d = - 1" "x = of_int k - 1 / 2"
    by (auto simp: algebra_simps)
  then show ?thesis
  proof cases
    case 1
    with lo have "Math_round x = k" by (simp add: Math_round_inside)
    with 1 show ?thesis by simp
  next
    case 2
    then have "Math_round (x + d / 2) = \<lfloor>real_of_int (k + 1) + 1 / 2\<rfloor>"
      by (simp add: Math_round_def)
    also have "\<dots> = k + 1" by linarith
    finally show ?thesis using 2 by simp
  next
    case 3
    then have "Math_round (x + d / 2) = \<lfloor>real_of_int (k - 1) + 1 / 2\<rfloor>"
      by (simp add: Math_round_def)
    also have "\<dots> = k - 1" by linarith
    finally show ?thesis using 3 by simp
  qed
qed

lemma getTargetBlock_place_adjacent:
  assumes "n \<in> set canonical_normals" and "on_face c n p"
    and "vx p - of_int (pos_x c) < 1 / 2 \<or> vx n = 1"
    and "vy p - of_int (pos_y c) < 1 / 2 \<or> vy n = 1"
    and "vz p - of_int (pos_z c) < 1 / 2 \<or> vz n = 1"
  shows "\<exists>t. getTargetBlock (block_hit c n p # others) = Some t
     \<and> real_of_int (pos_x (place t)) = of_int (pos_x c) + vx n
     \<and> real_of_int (pos_y (place t)) = of_int (pos_y c) + vy n
     \<and> real_of_int (pos_z (place t)) = of_int (pos_z c) + vz n"
proof -
  from assms(2) have b: "\<bar>vx p - of_int (pos_x c)\<bar> \<le> 1 / 2" "\<bar>vy p - of_int (pos_y c)\<bar> \<le> 1 / 2"
    "\<bar>vz p - of_int (pos_z c)\<bar> \<le> 1 / 2"
    and dot: "(vx p - of_int (pos_x c)) * vx n + (vy p - of_int (pos_y c)) * vy n
          + (vz p - of_int (pos_z c)) * vz n = 1 / 2"
    by (simp_all add: on_face_def)
  from assms(1) have n: "n = Vector3 1 0 0 \<or> n = Vector3 (- 1) 0 0 \<or> n = Vector3 0 1 0
      \<or> n = Vector3 0 (- 1) 0 \<or> n = Vector3 0 0 1 \<or> n = Vector3 0 0 (- 1)"
    by (simp add: canonical_normals_def)
  have "real_of_int (Math_round (vx p + vx n / 2)) = of_int (pos_x c) + vx n"
    using n dot assms(3) by (intro Math_round_place_coordinate b) (auto simp: Vector3_def)
  moreover have "real_of_int (Math_round (vy p + vy n / 2)) = of_int (pos_y c) + vy n"
    using n dot assms(4) by (intro Math_round_place_coordinate b) (auto simp: Vector3_def)
  moreover have "real_of_int (Math_round (vz p + vz n / 2)) = of_int (pos_z c) + vz n"
    using n dot assms(5) by (intro Math_round_place_coordinate b) (auto simp: Vector3_def)
  ultimately show ?thesis by (simp add: getTargetBlock_axis_hit [OF assms(1)])
qed

lemma getTargetBlock_remove_negative_face:
  assumes "n \<in> set [Vector3 (- 1) 0 0, Vector3 0 (- 1) 0, Vector3 0 0 (- 1)]" and "on_face c n p"
    and "vx p - of_int (pos_x c) < 1 / 2" and "vy p - of_int (pos_y c) < 1 / 2"
    and "vz p - of_int (pos_z c) < 1 / 2"
  shows "map_option remove (getTargetBlock (block_hit c n p # others)) = Some c"
proof -
  from assms(1) have n: "n \<in> set canonical_normals" by (auto simp: canonical_normals_def)
  from assms(2) have "\<bar>vx p - of_int (pos_x c)\<bar> \<le> 1 / 2" "\<bar>vy p - of_int (pos_y c)\<bar> \<le> 1 / 2"
    "\<bar>vz p - of_int (pos_z c)\<bar> \<le> 1 / 2"
    by (simp_all add: on_face_def)
  then have "- 1 / 2 \<le> vx p - of_int (pos_x c)" "- 1 / 2 \<le> vy p - of_int (pos_y c)"
    "- 1 / 2 \<le> vz p - of_int (pos_z c)"
    by linarith+
  with assms(3-5) have "Math_round (vx p) = pos_x c" "Math_round (vy p) = pos_y c" "Math_round (vz p) = pos_z c"
    by (simp_all add: Math_round_inside)
  then show ?thesis by (simp add: getTargetBlock_axis_hit [OF n])
qed

lemma getTargetBlock_remove_positive_face:
  assumes "n \<in> set [Vector3 1 0 0, Vector3 0 1 0, Vector3 0 0 1]" and "on_face c n p"
  shows "\<exists>t. getTargetBlock (block_hit c n p # others) = Some t \<and> remove t \<noteq> c"
proof -
  from assms(1) have n: "n \<in> set canonical_normals" by (auto simp: canonical_normals_def)
  from assms have "Math_round (vx p) = pos_x c + 1 \<or> Math_round (vy p) = pos_y c + 1
      \<or> Math_round (vz p) = pos_z c + 1"
    unfolding Math_round_def on_face_def Vector3_def by auto linarith+
  then have "\<lparr>pos_x = Math_round (vx p), pos_y = Math_round (vy p), pos_z = Math_round (vz p)\<rparr> \<noteq> c"
    by (cases c) auto
  then show ?thesis by (simp add: getTargetBlock_axis_hit [OF n])
qed

text \<open>
  Claim C1, at the centre of the \<open>+x\<close> face of the cube at the origin: the hit point is
  \<open>(1/2, 0, 0)\<close> and the normal \<open>(1, 0, 0)\<close>. The place cell is \<open>(1, 0, 0)\<close>, the cube's
  neighbour, and the remove cell is that same neighbour, not the struck cube \<open>(0, 0, 0)\<close>;
  raycastBlock answers the same.
\<close>

theorem getTargetBlock_remove_on_positive_x_face:
  "on_face \<lparr>pos_x = 0, pos_y = 0, pos_z = 0\<rparr> (Vector3 1 0 0) (Vector3 (1 / 2) 0 0)
   \<and> getTargetBlock [block_hit \<lparr>pos_x = 0, pos_y = 0, pos_z = 0\<rparr> (Vector3 1 0 0) (Vector3 (1 / 2) 0 0)]
       = Some \<lparr>place = \<lparr>pos_x = 1, pos_y = 0, pos_z = 0\<rparr>, remove = \<lparr>pos_x = 1, pos_y = 0, pos_z = 0\<rparr>\<rparr>
   \<and> raycastBlock [block_hit \<lparr>pos_x = 0, pos_y = 0, pos_z = 0\<rparr> (Vector3 1 0 0) (Vector3 (1 / 2) 0 0)]
       = Some \<lparr>place = \<lparr>pos_x = 1, pos_y = 0, pos_z = 0\<rparr>, remove = \<lparr>pos_x = 1, pos_y = 0, pos_z = 0\<rparr>\<rparr>"
proof -
  have n: "Vector3 1 0 0 \<in> set canonical_normals"
    by (simp add: canonical_normals_def)
  have f: "on_face \<lparr>pos_x = 0, pos_y = 0, pos_z = 0\<rparr> (Vector3 1 0 0) (Vector3 (1 / 2) 0 0)"
    by (simp add: on_face_def Vector3_def)
  have t: "getTargetBlock [block_hit \<lparr>pos_x = 0, pos_y = 0, pos_z = 0\<rparr> (Vector3 1 0 0) (Vector3 (1 / 2) 0 0)]
       = Some \<lparr>place = \<lparr>pos_x = 1, pos_y = 0, pos_z = 0\<rparr>, remove = \<lparr>pos_x = 1, pos_y = 0, pos_z = 0\<rparr>\<rparr>"
    unfolding getTargetBlock_axis_hit [OF n] by (simp add: Math_round_def Vector3_def)
  from f t show ?thesis by (simp add: raycastBlock_def)
qed

section \<open>Properties of the click handler\<close>

lemma position_key_getBlockKey: "position_key p = getBlockKey (pos_x p) (pos_y p) (pos_z p)"
  by (simp add: position_key_def getBlockKey_def)

lemma click_cow_left_button: "click_cow cam 0 cowIntersects cs = None"
  by (simp add: click_cow_def split: list.splits)

lemma click_block_remove_absent:
  assumes "getTargetBlock blockIntersects = Some target"
    and "world st (position_key (remove target)) = None"
  shows "click_block sel 0 blockIntersects st = st"
  using assms by (simp add: click_block_def)

lemma click_block_place_occupied:
  assumes "getTargetBlock blockIntersects = Some target"
    and "world st (position_key (place target)) \<noteq> None"
  shows "click_block sel 2 blockIntersects st = st"
  using assms by (auto simp: click_block_def)

lemma click_cow_world:
  "world (handleClick locked sel cam button cowIntersects blockIntersects st) =
     (if locked \<and> click_cow cam button cowIntersects (cows st) = None
      then world (click_block sel button blockIntersects st) else world st)"
  "scene (handleClick locked sel cam button cowIntersects blockIntersects st) =
     (if locked \<and> click_cow cam button cowIntersects (cows st) = None
      then scene (click_block sel button blockIntersects st) else scene st)"
  by (auto simp: handleClick_def split: option.splits)

text \<open>
  Claim C8. When the block ray has a target: a remove click (button 0) whose remove cell is
  absent from the world leaves the whole state as it was, and a place click (button 2)
  whose place cell is present leaves the world and the scene as they were. Nothing is
  raised in either case. The same holds for the earlier handler without cows. The key
  looked up is the codec's key of the cell.
\<close>

theorem click_is_noop_when_precondition_fails:
  assumes "getTargetBlock blockIntersects = Some target"
  shows "(world st (position_key (remove target)) = None \<longrightarrow>
            handleClick locked sel cam 0 cowIntersects blockIntersects st = st
            \<and> handleClick_part_000 locked sel 0 blockIntersects st = st)
       \<and> (world st (position_key (place target)) \<noteq> None \<longrightarrow>
            world (handleClick locked sel cam 2 cowIntersects blockIntersects st) = world st
            \<and> scene (handleClick locked sel cam 2 cowIntersects blockIntersects st) = scene st
            \<and> handleClick_part_000 locked sel 2 blockIntersects st = st)
       \<and> position_key (remove target)
            = getBlockKey (pos_x (remove target)) (pos_y (remove target)) (pos_z (remove target))
       \<and> position_key (place target)
            = getBlockKey (pos_x (place target)) (pos_y (place target)) (pos_z (place target))"
  using click_block_remove_absent [OF assms, of st sel] click_block_place_occupied [OF assms, of st sel]
  by (simp add: handleClick_def handleClick_part_000_def click_cow_left_button click_cow_world
      position_key_getBlockKey split: option.splits)

lemma top_face_target:
  "getTargetBlock [top_face_hit] =
     Some \<lparr>place = \<lparr>pos_x = 0, pos_y = 1, pos_z = 0\<rparr>, remove = \<lparr>pos_x = 0, pos_y = 1, pos_z = 0\<rparr>\<rparr>"
proof -
  have n: "Vector3 0 1 0 \<in> set canonical_normals"
    by (simp add: canonical_normals_def)
  show ?thesis
    unfolding top_face_hit_def getTargetBlock_axis_hit [OF n]
    by (simp add: Math_round_def Vector3_def)
qed

lemma key_above_origin: "position_key \<lparr>pos_x = 0, pos_y = 1, pos_z = 0\<rparr> = ''0,1,0''"
  by (simp add: position_key_def Number_toString_def nat_digits.simps digit_char_def)

lemma Cow_new_mesh:
  "mesh (fst (Cow_new h x y z g)) = h" "\<not> isFed (fst (Cow_new h x y z g))"
  by (simp_all add: Cow_new_def split_beta)

lemma Cow_feed_mesh:
  "mesh (Cow_feed p c) = mesh c" "isFed (Cow_feed p c)"
  by (simp_all add: Cow_feed_def updateBodyColor_def)

lemma cow_body_hit_finds_cow:
  "mesh c = 100 \<Longrightarrow> find_index (is_clicked (clickedCowMesh cow_body_hit)) [c] = Some 0"
  by (simp add: is_clicked_def clickedCowMesh_def cow_body_hit_def)

theorem click_is_noop_when_precondition_fails_witness:
  "getTargetBlock [top_face_hit] =
     Some \<lparr>place = \<lparr>pos_x = 0, pos_y = 1, pos_z = 0\<rparr>, remove = \<lparr>pos_x = 0, pos_y = 1, pos_z = 0\<rparr>\<rparr>
   \<and> world fed_cow_scene ''0,1,0'' = None
   \<and> handleClick True DIRT above_camera 0 [] [top_face_hit] fed_cow_scene = fed_cow_scene
   \<and> world covered_scene ''0,1,0'' \<noteq> None
   \<and> world (handleClick True DIRT above_camera 2 [] [top_face_hit] covered_scene) = world covered_scene
   \<and> scene (handleClick True DIRT above_camera 2 [] [top_face_hit] covered_scene) = scene covered_scene"
proof -
  note k = key_above_origin
  have a: "world fed_cow_scene ''0,1,0'' = None"
    by (simp add: fed_cow_scene_def)
  have b: "world covered_scene ''0,1,0'' \<noteq> None"
    by (simp add: covered_scene_def)
  show ?thesis
    using a b k top_face_target
      click_is_noop_when_precondition_fails [OF top_face_target, of fed_cow_scene True DIRT above_camera "[]"]
      click_is_noop_when_precondition_fails [OF top_face_target, of covered_scene True DIRT above_camera "[]"]
    by simp
qed

text \<open>
  Claim C2, as stated, at a cow that is already fed: the right click's ray meets the cow
  first, the cow is left as it is, and the click goes on to the blocks and places the
  selected block in the empty cell above the struck one.
\<close>

theorem right_click_on_fed_cow_places_block:
  "isFed fed_cow
   \<and> find_index (is_clicked (clickedCowMesh cow_body_hit)) (cows fed_cow_scene) = Some 0
   \<and> world fed_cow_scene ''0,1,0'' = None
   \<and> cows (handleClick True DIRT above_camera 2 [cow_body_hit] [top_face_hit] fed_cow_scene) = [fed_cow]
   \<and> world (handleClick True DIRT above_camera 2 [cow_body_hit] [top_face_hit] fed_cow_scene) ''0,1,0''
       = Some \<lparr>mesh_material = DIRT, mesh_position = \<lparr>pos_x = 0, pos_y = 1, pos_z = 0\<rparr>\<rparr>"
proof -
  have fed: "isFed fed_cow" and m: "mesh fed_cow = 100"
    by (simp_all add: fed_cow_def Cow_feed_mesh Cow_new_mesh)
  have c: "cows fed_cow_scene = [fed_cow]" and w: "world fed_cow_scene ''0,1,0'' = None"
    by (simp_all add: fed_cow_scene_def)
  have f: "find_index (is_clicked (clickedCowMesh cow_body_hit)) (cows fed_cow_scene) = Some 0"
    unfolding c by (rule cow_body_hit_finds_cow [OF m])
  have "click_cow above_camera 2 [cow_body_hit] (cows fed_cow_scene) = None"
    using fed by (simp add: click_cow_def f) (simp add: c)
  then have h: "handleClick True DIRT above_camera 2 [cow_body_hit] [top_face_hit] fed_cow_scene
      = click_block DIRT 2 [top_face_hit] fed_cow_scene"
    by (simp add: handleClick_def)
  have "click_block DIRT 2 [top_face_hit] fed_cow_scene
      = fed_cow_scene\<lparr>scene := scene fed_cow_scene
            @ [BlockMesh \<lparr>mesh_material = DIRT, mesh_position = \<lparr>pos_x = 0, pos_y = 1, pos_z = 0\<rparr>\<rparr>],
          world := (world fed_cow_scene)(''0,1,0'' \<mapsto>
            \<lparr>mesh_material = DIRT, mesh_position = \<lparr>pos_x = 0, pos_y = 1, pos_z = 0\<rparr>\<rparr>)\<rparr>"
    by (simp add: click_block_def top_face_target key_above_origin w Let_def)
  with h fed f w c show ?thesis by simp
qed

lemma click_block_places:
  assumes "getTargetBlock blockIntersects = Some target"
    and "world st (position_key (place target)) = None"
  shows "click_block sel 2 blockIntersects st =
     st\<lparr>scene := scene st @ [BlockMesh \<lparr>mesh_material = sel, mesh_position = place target\<rparr>],
        world := (world st)(position_key (place target) \<mapsto>
                   \<lparr>mesh_material = sel, mesh_position = place target\<rparr>)\<rparr>"
  using assms by (simp add: click_block_def Let_def)

lemma click_block_no_target:
  "getTargetBlock blockIntersects = None \<Longrightarrow> click_block sel button blockIntersects st = st"
  by (simp add: click_block_def)

text \<open>
  Claim C2, amended. On a right click whose cow ray has a first hit that belongs to a cow:
  if that cow is not fed, the click feeds it with the camera position and returns, so the
  world and the scene are as before and no block is placed. If that cow is already fed, no
  cow changes and the click is handled as a place click: when the block ray has a target
  whose place cell is empty, the selected block is put into that cell of the world and
  its mesh is added to the scene; when the place cell is occupied, or the block ray hits
  nothing, the state is as before.
\<close>

theorem right_click_on_cow:
  assumes "find_index (is_clicked (clickedCowMesh first)) (cows st) = Some i"
  shows "(\<not> isFed (cows st ! i) \<longrightarrow>
            handleClick True sel cam 2 (first # others) blockIntersects st
              = st\<lparr>cows := (cows st)[i := Cow_feed cam (cows st ! i)]\<rparr>
            \<and> world (handleClick True sel cam 2 (first # others) blockIntersects st) = world st
            \<and> scene (handleClick True sel cam 2 (first # others) blockIntersects st) = scene st)
       \<and> (isFed (cows st ! i) \<longrightarrow>
            cows (handleClick True sel cam 2 (first # others) blockIntersects st) = cows st
            \<and> (getTargetBlock blockIntersects = Some target
                  \<and> world st (position_key (place target)) = None \<longrightarrow>
                 handleClick True sel cam 2 (first # others) blockIntersects st
                   = st\<lparr>scene := scene st
                            @ [BlockMesh \<lparr>mesh_material = sel, mesh_position = place target\<rparr>],
                          world := (world st)(position_key (place target) \<mapsto>
                            \<lparr>mesh_material = sel, mesh_position = place target\<rparr>)\<rparr>
                 \<and> world (handleClick True sel cam 2 (first # others) blockIntersects st)
                      (position_key (place target))
                   = Some \<lparr>mesh_material = sel, mesh_position = place target\<rparr>)
            \<and> (getTargetBlock blockIntersects = Some target
                  \<and> world st (position_key (place target)) \<noteq> None \<longrightarrow>
                 handleClick True sel cam 2 (first # others) blockIntersects st = st)
            \<and> (getTargetBlock blockIntersects = None \<longrightarrow>
                 handleClick True sel cam 2 (first # others) blockIntersects st = st))"
proof -
  have unfed: "handleClick True sel cam 2 (first # others) blockIntersects st
      = st\<lparr>cows := (cows st)[i := Cow_feed cam (cows st ! i)]\<rparr>" if "\<not> isFed (cows st ! i)"
    using that assms by (simp add: handleClick_def click_cow_def)
  have fed: "handleClick True sel cam 2 (first # others) blockIntersects st
      = click_block sel 2 blockIntersects st" if "isFed (cows st ! i)"
    using that assms by (simp add: handleClick_def click_cow_def)
  have c: "cows (click_block sel 2 blockIntersects st) = cows st"
    by (simp add: click_block_def Let_def split: option.splits)
  show ?thesis
    using unfed fed c click_block_places [of blockIntersects target st sel]
      click_block_place_occupied [of blockIntersects target st sel]
      click_block_no_target [of blockIntersects sel 2 st]
    by auto
qed

theorem right_click_on_cow_witness:
  "find_index (is_clicked (clickedCowMesh cow_body_hit)) (cows fed_cow_scene) = Some 0
   \<and> isFed (cows fed_cow_scene ! 0)
   \<and> getTargetBlock [top_face_hit]
       = Some \<lparr>place = \<lparr>pos_x = 0, pos_y = 1, pos_z = 0\<rparr>, remove = \<lparr>pos_x = 0, pos_y = 1, pos_z = 0\<rparr>\<rparr>
   \<and> world fed_cow_scene ''0,1,0'' = None
   \<and> cows (handleClick True DIRT above_camera 2 [cow_body_hit] [top_face_hit] fed_cow_scene)
       = cows fed_cow_scene
   \<and> world (handleClick True DIRT above_camera 2 [cow_body_hit] [top_face_hit] fed_cow_scene) ''0,1,0''
       = Some \<lparr>mesh_material = DIRT, mesh_position = \<lparr>pos_x = 0, pos_y = 1, pos_z = 0\<rparr>\<rparr>
   \<and> world covered_scene ''0,1,0'' \<noteq> None
   \<and> find_index (is_clicked (clickedCowMesh cow_body_hit)) (cows covered_scene) = Some 0
   \<and> isFed (cows covered_scene ! 0)
   \<and> handleClick True DIRT above_camera 2 [cow_body_hit] [top_face_hit] covered_scene = covered_scene
   \<and> handleClick True DIRT above_camera 2 [cow_body_hit] [] fed_cow_scene = fed_cow_scene
   \<and> find_index (is_clicked (clickedCowMesh cow_body_hit))
        (cows (fed_cow_scene\<lparr>cows := [fst (Cow_new 100 0 1 0 (\<lambda>n. 1 / 2))]\<rparr>)) = Some 0
   \<and> \<not> isFed (cows (fed_cow_scene\<lparr>cows := [fst (Cow_new 100 0 1 0 (\<lambda>n. 1 / 2))]\<rparr>) ! 0)
   \<and> handleClick True DIRT above_camera 2 [cow_body_hit] [top_face_hit]
        (fed_cow_scene\<lparr>cows := [fst (Cow_new 100 0 1 0 (\<lambda>n. 1 / 2))]\<rparr>)
       = fed_cow_scene"
proof -
  let ?unfed = "fed_cow_scene\<lparr>cows := [fst (Cow_new 100 0 1 0 (\<lambda>n. 1 / 2))]\<rparr>"
  let ?target = "\<lparr>place = \<lparr>pos_x = 0, pos_y = 1, pos_z = 0\<rparr>, remove = \<lparr>pos_x = 0, pos_y = 1, pos_z = 0\<rparr>\<rparr>"
  have m: "mesh fed_cow = 100"
    by (simp add: fed_cow_def Cow_feed_mesh Cow_new_mesh)
  have c: "cows fed_cow_scene = [fed_cow]" and c': "cows covered_scene = [fed_cow]"
    by (simp_all add: fed_cow_scene_def covered_scene_def)
  have w: "world fed_cow_scene ''0,1,0'' = None" and w': "world covered_scene ''0,1,0'' \<noteq> None"
    by (simp_all add: fed_cow_scene_def covered_scene_def)
  have f: "find_index (is_clicked (clickedCowMesh cow_body_hit)) (cows fed_cow_scene) = Some 0"
    unfolding c by (rule cow_body_hit_finds_cow [OF m])
  have f': "find_index (is_clicked (clickedCowMesh cow_body_hit)) (cows covered_scene) = Some 0"
    unfolding c' by (rule cow_body_hit_finds_cow [OF m])
  have g: "find_index (is_clicked (clickedCowMesh cow_body_hit)) (cows ?unfed) = Some 0"
    using cow_body_hit_finds_cow [OF Cow_new_mesh(1), of 0 1 0 "\<lambda>n. 1 / 2"] by simp
  have fed: "isFed (cows fed_cow_scene ! 0)" and fed': "isFed (cows covered_scene ! 0)"
    by (simp_all add: c c' fed_cow_def Cow_feed_mesh)
  have unfed: "\<not> isFed (cows ?unfed ! 0)"
    by (simp add: Cow_new_mesh)
  have e: "?unfed\<lparr>cows := (cows ?unfed)[0 := Cow_feed above_camera (cows ?unfed ! 0)]\<rparr> = fed_cow_scene"
    by (simp add: fed_cow_scene_def fed_cow_def)
  have n: "getTargetBlock [] = None"
    by (simp add: getTargetBlock_def)
  show ?thesis
    using f f' g fed fed' unfed e w w' n top_face_target key_above_origin
      right_click_on_cow [OF f, of DIRT above_camera "[]" "[top_face_hit]" ?target]
      right_click_on_cow [OF f', of DIRT above_camera "[]" "[top_face_hit]" ?target]
      right_click_on_cow [OF f, of DIRT above_camera "[]" "[]" ?target]
      right_click_on_cow [OF g, of DIRT above_camera "[]" "[top_face_hit]" ?target]
    by simp
qed

section \<open>Properties of spawnCows\<close>

text \<open>
  The search loop has no test of the sampled position: from any counter below 50 it runs
  until the counter is 50 and answers the sample of its last pass. Started at 0 it makes
  50 passes, consumes 100 draws and answers the position built from draws 98 and 99.
\<close>

lemma spawn_search_last:
  assumes "a < 50"
  shows "spawn_search a g =
     ((g (2 * (49 - a)) * 15 * 2 - 15,
       of_int (getTerrainHeight (g (2 * (49 - a)) * 15 * 2 - 15) (g (2 * (49 - a) + 1) * 15 * 2 - 15) + 1),
       g (2 * (49 - a) + 1) * 15 * 2 - 15),
      \<lambda>n. g (n + 2 * (50 - a)))"
  using assms
proof (induction "49 - a" arbitrary: a g)
  case 0
  then have a: "a = 49" by simp
  show ?case
    unfolding a
    by (subst spawn_search.simps)
      (simp add: Math_random_def Let_def getTerrainHeight_def noise_def)
next
  case (Suc k)
  then have lt: "a + 1 < 50" and k: "k = 49 - (a + 1)" by simp_all
  have j0: "Suc (Suc (2 * (49 - (a + 1)))) = 2 * (49 - a)"
    and j1: "Suc (Suc (2 * (49 - (a + 1)) + 1)) = 2 * (49 - a) + 1"
    using lt by simp_all
  have l: "(\<lambda>n. g (Suc (Suc (n + 2 * (50 - (a + 1)))))) = (\<lambda>n. g (n + 2 * (50 - a)))"
  proof (rule ext)
    fix n
    have "Suc (Suc (n + 2 * (50 - (a + 1)))) = n + 2 * (50 - a)" using lt by simp
    then show "g (Suc (Suc (n + 2 * (50 - (a + 1))))) = g (n + 2 * (50 - a))" by (rule arg_cong)
  qed
  have "spawn_search a g = spawn_search (a + 1) (\<lambda>n. g (Suc (Suc n)))"
    using lt by (subst spawn_search.simps) (simp add: Math_random_def Let_def)
  also have "\<dots> =
     ((g (2 * (49 - a)) * 15 * 2 - 15,
       of_int (getTerrainHeight (g (2 * (49 - a)) * 15 * 2 - 15) (g (2 * (49 - a) + 1) * 15 * 2 - 15) + 1),
       g (2 * (49 - a) + 1) * 15 * 2 - 15),
      \<lambda>n. g (n + 2 * (50 - a)))"
    unfolding Suc.hyps(1) [OF k lt] by (simp only: j0 j1 l)
  finally show ?case .
qed

lemma spawn_search_sample: "spawn_search 0 g = sample_position (\<lambda>n. g (n + 98))"
  using spawn_search_last [of 0 g]
  by (simp add: sample_position_def Math_random_def Let_def getTerrainHeight_def noise_def
      add.commute)

lemma Cow_new_position: "position (fst (Cow_new h x y z g)) = Vector3 x y z"
  by (simp add: Cow_new_def split_beta)

text \<open>The cow that spawnCows makes is built at the position its search answers.\<close>

lemma spawnCows_one:
  "map position (fst (spawnCows sc 1 h g))
     = [case fst (spawn_search 0 g) of (x, y, z) \<Rightarrow> Vector3 x y z]"
  by (simp add: spawnCows_def split_beta Cow_new_position)

lemma terrain_height_origin: "getTerrainHeight 0 0 = 5"
  by (simp add: getTerrainHeight_def noise_def)

lemma terrain_dip: "\<lfloor>sin (- 15 / 32 * 0.1 :: real) * cos (0 * 0.1) * 3\<rfloor> = - 1"
proof -
  have p: "0 < sin (3 / 64 :: real)"
    by (rule sin_gt_zero_02) simp_all
  have "sin (3 / 64 :: real) \<le> 3 / 64"
    by (rule sin_x_le_x) simp
  with p have "- 1 \<le> - sin (3 / 64 :: real) * 3" and "- sin (3 / 64 :: real) * 3 < 0"
    by simp_all
  then have "\<lfloor>- sin (3 / 64 :: real) * 3\<rfloor> = - 1"
    by linarith
  moreover have "sin (- 15 / 32 * 0.1 :: real) * cos (0 * 0.1) * 3 = - sin (3 / 64 :: real) * 3"
  proof -
    have "(- 15 / 32 * 0.1 :: real) = - (3 / 64)" by simp
    then show ?thesis by (simp only: sin_minus) simp
  qed
  ultimately show ?thesis by simp
qed

text \<open>
  Claim C3, at the source \<open>late_source\<close> and one cow to spawn. The first pass samples the
  candidate \<open>(0, 6, 0)\<close>, which is on the ground (it stands on the top block of the column at
  the origin), as do the 48 passes after it. The loop accepts none of them: it has no test
  of the candidate, runs all 50 passes and answers the last sample, so the cow is spawned
  at \<open>(-15/32, 5, 0)\<close>, a point inside the grass block of the cell \<open>(0, 5, 0)\<close>. The search
  never needed its fallback here, and the cow is not on the ground.
\<close>

theorem spawnCows_takes_last_sample_unvalidated:
  "fst (sample_position late_source) = (0, 6, 0)
   \<and> on_ground (Vector3 0 6 0)
   \<and> fst (spawn_search 0 late_source) = (- 15 / 32, 5, 0)
   \<and> map position (fst (spawnCows [] 1 0 late_source)) = [Vector3 (- 15 / 32) 5 0]
   \<and> inside_terrain (Vector3 (- 15 / 32) 5 0)
   \<and> \<not> on_ground (Vector3 (- 15 / 32) 5 0)"
proof -
  have first: "fst (sample_position late_source) = (0, 6, 0)"
    by (simp add: sample_position_def late_source_def Math_random_def Let_def)
  have r: "Math_round 0 = 0" "Math_round 5 = 5" "Math_round 6 = 6" "Math_round (- (15 / 32)) = 0"
    by (simp_all add: Math_round_def)
  have g: "on_ground (Vector3 0 6 0)"
    by (simp add: on_ground_def terrain_block_def Vector3_def r terrain_height_origin)
  have i: "inside_terrain (Vector3 (- 15 / 32) 5 0)"
    by (simp add: inside_terrain_def terrain_block_def Vector3_def r terrain_height_origin)
  have n: "\<not> on_ground (Vector3 (- 15 / 32) 5 0)"
    by (simp add: on_ground_def terrain_block_def Vector3_def r terrain_height_origin)
  have "spawn_search 0 late_source = sample_position (\<lambda>n. late_source (n + 98))"
    by (rule spawn_search_sample)
  also have "fst \<dots> = (- 15 / 32, of_int (\<lfloor>sin (- 15 / 32 * 0.1 :: real) * cos (0 * 0.1) * 3\<rfloor> + 6), 0)"
    by (simp add: sample_position_def late_source_def Math_random_def Let_def)
  finally have last: "fst (spawn_search 0 late_source) = (- 15 / 32, 5, 0)"
    by (simp only: terrain_dip) simp
  have "map position (fst (spawnCows [] 1 0 late_source)) = [Vector3 (- 15 / 32) 5 0]"
    unfolding spawnCows_one last by simp
  with first g i n last show ?thesis by simp
qed

end
